theory Spec2Isabelle
  imports Complex_Main
begin

section \<open>Data model (models.py, schemas.py)\<close>

text \<open>
  A Python \<open>float\<close>: a number, an infinity or NaN. pydantic accepts all of them for a
  field of type \<open>float\<close>.
\<close>

datatype pyfloat = FloatVal real | PosInf | NegInf | NaN

text \<open>The payload type \<open>Any\<close> (\<open>GoalCreate.details\<close>, \<open>SubjectCreate.schedule\<close>): a JSON value.\<close>

datatype json =
    JNull
  | JBool bool
  | JNum pyfloat
  | JStr string
  | JArr "json list"
  | JObj "(string \<times> json) list"

text \<open>
  What a JSON column (\<open>Goal.details\<close>, \<open>Subject.schedule\<close>) gives back. The session
  writes the value as its JSON text, and SQLite gives a column declared \<open>JSON\<close> numeric
  affinity: a text that is a bare number is turned into an INTEGER or a REAL when it is
  stored, and read back as that number (an integer beyond 64 bits comes back as a
  nearby REAL). \<open>Numeric x\<close> stands for the number SQLite makes of the JSON text of \<open>x\<close>;
  every other value is kept as it was sent.
\<close>

datatype json_column = Kept json | Numeric real

text \<open>
  One record per table of models.py. A column \<open>c\<close> of table \<open>T\<close> is the field \<open>T_c\<close>
  (record fields are global names, and every table has an \<open>id\<close>). So \<open>goal_id\<close> is
  \<open>Goal.id\<close>, and \<open>subject_goal_id\<close> is \<open>Subject.goal_id\<close>. A \<open>Float\<close> column holds a
  float or NULL (\<open>None\<close>).
\<close>

record User =
  user_id :: int
  user_email :: string
  user_hashed_password :: string

record Goal =
  goal_id :: string
  goal_title :: string
  goal_type :: string
  goal_details :: json_column
  goal_owner_id :: int

record Subject =
  subject_id :: string
  subject_goal_id :: string
  subject_name :: string
  subject_color :: string
  subject_tracking_mode :: string
  subject_schedule :: json_column
  subject_total_study_hours :: "pyfloat option"
  subject_total_target_hours :: "pyfloat option"
  subject_owner_id :: int

record Chapter =
  chapter_id :: string
  chapter_subject_id :: string
  chapter_name :: string
  chapter_target_date :: string
  chapter_target_time :: "string option"
  chapter_estimated_duration :: "string option"
  chapter_completed :: bool

record Notification =
  notification_id :: string
  notification_subject_id :: string
  notification_subject_name :: string
  notification_type :: string
  notification_scheduled_hours :: "pyfloat option"
  notification_scheduled_time :: string
  notification_scheduled_date :: string
  notification_status :: string
  notification_read :: bool
  notification_timestamp :: int
  notification_owner_id :: int

text \<open>
  The store: one list of rows per table, in insertion order. The tables are those
  that \<open>models.Base.metadata.create_all\<close> creates.
\<close>

record database =
  users :: "User list"
  goals :: "Goal list"
  subjects :: "Subject list"
  chapters :: "Chapter list"
  notifications :: "Notification list"

definition empty_db :: database where
  "empty_db = \<lparr>users = [], goals = [], subjects = [], chapters = [], notifications = []\<rparr>"

text \<open>
  The request payloads of schemas.py, after validation: \<open>UserCreate\<close>, \<open>GoalCreate\<close>,
  \<open>SubjectCreate\<close>, \<open>NotificationCreate\<close>. None of them has an owner field; a field a
  client adds is dropped by the validation (pydantic ignores unknown fields).
\<close>

record UserCreate =
  uc_email :: string
  uc_password :: string

record GoalCreate =
  gc_id :: string
  gc_title :: string
  gc_type :: string
  gc_details :: json

record SubjectCreate =
  sc_id :: string
  sc_goalId :: string
  sc_name :: string
  sc_color :: string
  sc_trackingMode :: string
  sc_schedule :: json
  sc_totalStudyHours :: pyfloat
  sc_totalTargetHours :: "pyfloat option"

record NotificationCreate =
  nc_id :: string
  nc_subjectId :: string
  nc_subjectName :: string
  nc_type :: string
  nc_scheduledHours :: pyfloat
  nc_scheduledTime :: string
  nc_scheduledDate :: string
  nc_status :: string
  nc_read :: bool
  nc_timestamp :: int

text \<open>
  The response models: \<open>schemas.User\<close> (id and email), \<open>schemas.Subject\<close> and
  \<open>schemas.Notification\<close>. The latter two extend their base model by a required
  \<open>owner_id: int\<close>. \<open>schemas.Goal\<close> has exactly the columns of a goal row and is read
  from the row (\<open>from_attributes\<close>), so a goal row stands for it.
\<close>

record User_out =
  uo_id :: int
  uo_email :: string

record Subject_out =
  so_id :: string
  so_goalId :: string
  so_name :: string
  so_color :: string
  so_trackingMode :: string
  so_schedule :: json_column
  so_totalStudyHours :: pyfloat
  so_totalTargetHours :: "pyfloat option"
  so_owner_id :: int

record Notification_out =
  no_id :: string
  no_subjectId :: string
  no_subjectName :: string
  no_type :: string
  no_scheduledHours :: pyfloat
  no_scheduledTime :: string
  no_scheduledDate :: string
  no_status :: string
  no_read :: bool
  no_timestamp :: int
  no_owner_id :: int

section \<open>Errors\<close>

text \<open>
  \<open>HTTPException status detail headers\<close> is what a handler raises itself.
  \<open>IntegrityError\<close> is the store rejecting a statement at commit (a key constraint),
  \<open>ValidationError\<close> is pydantic rejecting the construction of a model; neither is
  caught anywhere in main.py, so the request ends with it.
\<close>

datatype error =
    HTTPException nat string "(string \<times> string) list"
  | IntegrityError
  | ValidationError

datatype jwt_error = JWTError

section \<open>The store\<close>

text \<open>
  What the handlers use of the session and the database behind it. One request is one
  transaction: its statements reach the table at \<open>db.commit()\<close>, and a statement the
  store rejects ends the request with nothing written. The primary keys and the unique
  email are constraints the store enforces. The foreign keys of models.py are
  declarations only: SQLite, the default of database.py, does not enforce them unless
  asked to, and nothing asks.
\<close>

text \<open>
  A value written to a \<open>Float\<close> column: SQLite stores a NaN as NULL, and every other
  float as it is.
\<close>

definition store_float :: "pyfloat \<Rightarrow> pyfloat option" where
  "store_float x = (case x of NaN \<Rightarrow> None | _ \<Rightarrow> Some x)"

definition store_float_opt :: "pyfloat option \<Rightarrow> pyfloat option" where
  "store_float_opt x = (case x of None \<Rightarrow> None | Some v \<Rightarrow> store_float v)"

text \<open>A value written to a JSON column: a bare finite number goes through the affinity.\<close>

definition store_json :: "json \<Rightarrow> json_column" where
  "store_json j = (case j of JNum (FloatVal x) \<Rightarrow> Numeric x | _ \<Rightarrow> Kept j)"

text \<open>\<open>Query.first()\<close>: the first row of the result, or \<open>None\<close>.\<close>

definition first :: "'a list \<Rightarrow> 'a option" where
  "first xs = (case xs of [] \<Rightarrow> None | x # _ \<Rightarrow> Some x)"

text \<open>
  INSERT of one row into a table whose primary key is the column \<open>key\<close>
  (\<open>primary_key=True\<close> in models.py): the store rejects a key that is already in the
  table, whoever owns the row that holds it.
\<close>

definition insert_row :: "('a \<Rightarrow> 'k) \<Rightarrow> 'a \<Rightarrow> 'a list \<Rightarrow> error + 'a list" where
  "insert_row key r rows =
     (if key r \<in> set (map key rows) then Inl IntegrityError else Inr (rows @ [r]))"

text \<open>The INSERTs of one flush, in the order the rows were added to the session.\<close>

fun insert_rows :: "('a \<Rightarrow> 'k) \<Rightarrow> 'a list \<Rightarrow> 'a list \<Rightarrow> error + 'a list" where
  "insert_rows key [] rows = Inr rows"
| "insert_rows key (r # rs) rows =
     (case insert_row key r rows of
        Inl e \<Rightarrow> Inl e
      | Inr rows' \<Rightarrow> insert_rows key rs rows')"

text \<open>
  The UPDATE the session emits for a loaded object whose attributes were set: it
  addresses the row by its primary key, \<open>UPDATE t SET ... WHERE id = ?\<close>.
\<close>

definition update_row :: "('a \<Rightarrow> 'k) \<Rightarrow> 'a \<Rightarrow> 'a list \<Rightarrow> 'a list" where
  "update_row key r rows = map (\<lambda>x. if key x = key r then r else x) rows"

text \<open>
  The DELETE the session emits for \<open>db.delete(obj)\<close>: \<open>DELETE FROM t WHERE id = ?\<close>.
\<close>

definition delete_row :: "('a \<Rightarrow> 'k) \<Rightarrow> 'k \<Rightarrow> 'a list \<Rightarrow> 'a list" where
  "delete_row key k rows = filter (\<lambda>x. key x \<noteq> k) rows"

text \<open>
  \<open>User.id\<close> is an integer primary key that the client does not supply: the store
  assigns one more than the largest id in the table (1 in an empty table).
\<close>

definition next_user_id :: "User list \<Rightarrow> int" where
  "next_user_id us = fold max (map user_id us) 0 + 1"

text \<open>
  INSERT into \<open>users\<close>: the primary key, and \<open>unique=True\<close> on the email column.
\<close>

definition insert_user :: "User \<Rightarrow> User list \<Rightarrow> error + User list" where
  "insert_user u us =
     (if user_email u \<in> set (map user_email us) then Inl IntegrityError
      else insert_row user_id u us)"

text \<open>
  The key constraints of models.py as a predicate on a store: every primary key
  occurs once in its table, and so does every email.
\<close>

definition keys_unique :: "database \<Rightarrow> bool" where
  "keys_unique db \<longleftrightarrow>
     distinct (map user_id (users db)) \<and>
     distinct (map user_email (users db)) \<and>
     distinct (map goal_id (goals db)) \<and>
     distinct (map subject_id (subjects db)) \<and>
     distinct (map chapter_id (chapters db)) \<and>
     distinct (map notification_id (notifications db))"

section \<open>Identity resolution and signup (main.py)\<close>

text \<open>
  The one exception object \<open>get_current_user\<close> builds and raises on each of its
  failure paths.
\<close>

definition credentials_exception :: error where
  "credentials_exception =
     HTTPException 401 ''Could not validate credentials'' [(''WWW-Authenticate'', ''Bearer'')]"

text \<open>
  \<open>get_current_user\<close>. \<open>jwt_decode\<close> stands for
  \<open>jwt.decode(token, auth.SECRET_KEY, algorithms=[auth.ALGORITHM])\<close>: the key and the
  algorithm are in auth.py, which is not among the sources, so the decoder is a
  parameter. It raises \<open>JWTError\<close> or returns the claims; \<open>payload.get("sub")\<close> is the
  lookup of the claim \<open>sub\<close>, \<open>None\<close> when the claim is absent. The claims that
  matter here are strings: jose's \<open>decode\<close> itself raises a \<open>JWTError\<close> for a \<open>sub\<close>
  that is not a string.
\<close>

definition get_current_user ::
  "(string \<Rightarrow> jwt_error + (string \<rightharpoonup> string)) \<Rightarrow> database \<Rightarrow> string \<Rightarrow> error + User" where
  "get_current_user jwt_decode db token =
     (case jwt_decode token of
        Inl JWTError \<Rightarrow> Inl credentials_exception
      | Inr payload \<Rightarrow>
          (case payload ''sub'' of
             None \<Rightarrow> Inl credentials_exception
           | Some email \<Rightarrow>
               (case first (filter (\<lambda>u. user_email u = email) (users db)) of
                  None \<Rightarrow> Inl credentials_exception
                | Some user \<Rightarrow> Inr user)))"

text \<open>
  \<open>signup\<close>. \<open>get_password_hash\<close> is \<open>auth.get_password_hash\<close> (auth.py is not among
  the sources). A handler returns its response and the store it leaves; a request
  that raises before or in \<open>db.commit()\<close> leaves the store as it found it.
\<close>

definition signup ::
  "(string \<Rightarrow> string) \<Rightarrow> UserCreate \<Rightarrow> database \<Rightarrow> (error + User_out) \<times> database" where
  "signup get_password_hash user db =
     (case first (filter (\<lambda>u. user_email u = uc_email user) (users db)) of
        Some db_user \<Rightarrow> (Inl (HTTPException 400 ''Email already registered'' []), db)
      | None \<Rightarrow>
          (let new_user = \<lparr>user_id = next_user_id (users db),
                           user_email = uc_email user,
                           user_hashed_password = get_password_hash (uc_password user)\<rparr>
           in case insert_user new_user (users db) of
                Inl e \<Rightarrow> (Inl e, db)
              | Inr us \<Rightarrow>
                  (Inr \<lparr>uo_id = user_id new_user, uo_email = user_email new_user\<rparr>,
                   db\<lparr>users := us\<rparr>)))"

section \<open>Goals (main.py)\<close>

text \<open>\<open>read_goals\<close>: the rows of the caller, returned as they are.\<close>

definition read_goals :: "User \<Rightarrow> database \<Rightarrow> Goal list" where
  "read_goals current_user db =
     filter (\<lambda>g. goal_owner_id g = user_id current_user) (goals db)"

text \<open>
  \<open>create_goal\<close>: builds a new row from the payload and the caller's id, adds it to
  the session and commits. There is no lookup of an existing row. The response is the
  row as \<open>db.refresh\<close> reads it back.
\<close>

definition create_goal :: "GoalCreate \<Rightarrow> User \<Rightarrow> database \<Rightarrow> (error + Goal) \<times> database" where
  "create_goal goal current_user db =
     (let db_goal = \<lparr>goal_id = gc_id goal, goal_title = gc_title goal,
                      goal_type = gc_type goal,
                      goal_details = store_json (gc_details goal),
                      goal_owner_id = user_id current_user\<rparr>
      in case insert_row goal_id db_goal (goals db) of
           Inl e \<Rightarrow> (Inl e, db)
         | Inr gs \<Rightarrow> (Inr db_goal, db\<lparr>goals := gs\<rparr>))"

text \<open>
  \<open>delete_goal\<close>. The lookup filters by id and owner. The subjects go by a bulk
  \<open>Query.delete()\<close>, whose filter is \<open>Subject.goal_id == goal_id\<close> alone: it is one
  DELETE statement on the subjects table, and the relationship cascade of
  \<open>Subject.chapters\<close> (which the session runs for \<open>db.delete(obj)\<close>) is not part of
  it. The foreign keys are not enforced, so the chapters table is untouched.
\<close>

definition delete_goal :: "string \<Rightarrow> User \<Rightarrow> database \<Rightarrow> (error + string) \<times> database" where
  "delete_goal gid current_user db =
     (case first (filter (\<lambda>g. goal_id g = gid \<and> goal_owner_id g = user_id current_user)
                   (goals db)) of
        None \<Rightarrow> (Inl (HTTPException 404 ''Goal not found'' []), db)
      | Some db_goal \<Rightarrow>
          (Inr ''Goal deleted'',
           db\<lparr>subjects := filter (\<lambda>s. \<not> (subject_goal_id s = gid)) (subjects db),
              goals := delete_row goal_id (goal_id db_goal) (goals db)\<rparr>))"

section \<open>Subjects (main.py)\<close>

text \<open>
  The constructor of \<open>schemas.Subject\<close> with the keyword arguments main.py may pass.
  \<open>owner_id\<close> is a required field of the model: constructing it without one raises
  pydantic's \<open>ValidationError\<close>. So does a \<open>totalStudyHours\<close> that is \<open>None\<close> (the
  column read back as NULL): the field is a \<open>float\<close>.
\<close>

definition schemas_Subject ::
  "string \<Rightarrow> string \<Rightarrow> string \<Rightarrow> string \<Rightarrow> string \<Rightarrow> json_column \<Rightarrow> pyfloat option \<Rightarrow>
   pyfloat option \<Rightarrow> int option \<Rightarrow> error + Subject_out" where
  "schemas_Subject ident goalId name color trackingMode schedule totalStudyHours
       totalTargetHours owner_id =
     (case owner_id of
        None \<Rightarrow> Inl ValidationError
      | Some oid \<Rightarrow>
          (case totalStudyHours of
             None \<Rightarrow> Inl ValidationError
           | Some hours \<Rightarrow>
               Inr \<lparr>so_id = ident, so_goalId = goalId, so_name = name, so_color = color,
                    so_trackingMode = trackingMode, so_schedule = schedule,
                    so_totalStudyHours = hours,
                    so_totalTargetHours = totalTargetHours, so_owner_id = oid\<rparr>))"

text \<open>
  The mapping from a row to the response model that \<open>read_subjects\<close> and
  \<open>create_or_update_subject\<close> both write out: eight keyword arguments, and no
  \<open>owner_id\<close>.
\<close>

definition subject_to_schema :: "Subject \<Rightarrow> error + Subject_out" where
  "subject_to_schema s =
     schemas_Subject (subject_id s) (subject_goal_id s) (subject_name s) (subject_color s)
       (subject_tracking_mode s) (subject_schedule s) (subject_total_study_hours s)
       (subject_total_target_hours s) None"

text \<open>A list comprehension whose element expression may raise: the first raise ends it.\<close>

fun collect :: "(error + 'a) list \<Rightarrow> error + 'a list" where
  "collect [] = Inr []"
| "collect (x # xs) =
     (case x of
        Inl e \<Rightarrow> Inl e
      | Inr v \<Rightarrow> (case collect xs of Inl e \<Rightarrow> Inl e | Inr vs \<Rightarrow> Inr (v # vs)))"

definition read_subjects :: "User \<Rightarrow> database \<Rightarrow> error + Subject_out list" where
  "read_subjects current_user db =
     (let db_subjects = filter (\<lambda>s. subject_owner_id s = user_id current_user) (subjects db)
      in collect (map subject_to_schema db_subjects))"

text \<open>
  The dictionary \<open>data\<close> of \<open>create_or_update_subject\<close>, as the row the commit writes
  from it and \<open>db.refresh\<close> reads back.
\<close>

definition subject_data :: "SubjectCreate \<Rightarrow> User \<Rightarrow> Subject" where
  "subject_data subject current_user =
     \<lparr>subject_id = sc_id subject, subject_goal_id = sc_goalId subject,
      subject_name = sc_name subject, subject_color = sc_color subject,
      subject_tracking_mode = sc_trackingMode subject,
      subject_schedule = store_json (sc_schedule subject),
      subject_total_study_hours = store_float (sc_totalStudyHours subject),
      subject_total_target_hours = store_float_opt (sc_totalTargetHours subject),
      subject_owner_id = user_id current_user\<rparr>"

text \<open>
  \<open>create_or_update_subject\<close>: the lookup filters by id and owner; a row found has
  every attribute set from \<open>data\<close>, otherwise a new row is added. After the commit the
  response model is built from the refreshed row.
\<close>

definition create_or_update_subject ::
  "SubjectCreate \<Rightarrow> User \<Rightarrow> database \<Rightarrow> (error + Subject_out) \<times> database" where
  "create_or_update_subject subject current_user db =
     (let db_subject = first (filter (\<lambda>s. subject_id s = sc_id subject \<and>
                                         subject_owner_id s = user_id current_user)
                                (subjects db));
          data = subject_data subject current_user
      in case (case db_subject of
                 Some found \<Rightarrow> Inr (update_row subject_id data (subjects db))
               | None \<Rightarrow> insert_row subject_id data (subjects db)) of
           Inl e \<Rightarrow> (Inl e, db)
         | Inr rows \<Rightarrow> (subject_to_schema data, db\<lparr>subjects := rows\<rparr>))"

text \<open>
  \<open>delete_subject\<close>: \<open>db.delete(db_subject)\<close> goes through the session, so the
  cascade \<open>all, delete-orphan\<close> of \<open>Subject.chapters\<close> deletes the chapters whose
  \<open>subject_id\<close> is the subject's id, and then the subject's row.
\<close>

definition delete_subject :: "string \<Rightarrow> User \<Rightarrow> database \<Rightarrow> (error + string) \<times> database" where
  "delete_subject sid current_user db =
     (case first (filter (\<lambda>s. subject_id s = sid \<and> subject_owner_id s = user_id current_user)
                   (subjects db)) of
        None \<Rightarrow> (Inl (HTTPException 404 ''Subject not found'' []), db)
      | Some db_subject \<Rightarrow>
          (Inr ''Subject deleted'',
           db\<lparr>chapters := filter (\<lambda>c. \<not> (chapter_subject_id c = subject_id db_subject))
                           (chapters db),
              subjects := delete_row subject_id (subject_id db_subject) (subjects db)\<rparr>))"

text \<open>The store after the same \<open>POST /subjects\<close> was made twice by the same caller.\<close>

definition post_subject_twice :: "SubjectCreate \<Rightarrow> User \<Rightarrow> database \<Rightarrow> database" where
  "post_subject_twice subject current_user db =
     snd (create_or_update_subject subject current_user
            (snd (create_or_update_subject subject current_user db)))"

section \<open>Notifications (main.py)\<close>

text \<open>
  The constructor of \<open>schemas.Notification\<close>; \<open>owner_id\<close> is required here too, and
  \<open>scheduledHours\<close> is a \<open>float\<close>.
\<close>

definition schemas_Notification ::
  "string \<Rightarrow> string \<Rightarrow> string \<Rightarrow> string \<Rightarrow> pyfloat option \<Rightarrow> string \<Rightarrow> string \<Rightarrow> string \<Rightarrow>
   bool \<Rightarrow> int \<Rightarrow> int option \<Rightarrow> error + Notification_out" where
  "schemas_Notification ident subjectId subjectName type scheduledHours scheduledTime
       scheduledDate status read timestamp owner_id =
     (case owner_id of
        None \<Rightarrow> Inl ValidationError
      | Some oid \<Rightarrow>
          (case scheduledHours of
             None \<Rightarrow> Inl ValidationError
           | Some hours \<Rightarrow>
               Inr \<lparr>no_id = ident, no_subjectId = subjectId, no_subjectName = subjectName,
                    no_type = type, no_scheduledHours = hours,
                    no_scheduledTime = scheduledTime, no_scheduledDate = scheduledDate,
                    no_status = status, no_read = read, no_timestamp = timestamp,
                    no_owner_id = oid\<rparr>))"

text \<open>The element expression of \<open>read_notifications\<close>: ten keyword arguments, no \<open>owner_id\<close>.\<close>

definition notification_to_schema :: "Notification \<Rightarrow> error + Notification_out" where
  "notification_to_schema n =
     schemas_Notification (notification_id n) (notification_subject_id n)
       (notification_subject_name n) (notification_type n) (notification_scheduled_hours n)
       (notification_scheduled_time n) (notification_scheduled_date n)
       (notification_status n) (notification_read n) (notification_timestamp n) None"

definition read_notifications :: "User \<Rightarrow> database \<Rightarrow> error + Notification_out list" where
  "read_notifications current_user db =
     (let db_notifs = filter (\<lambda>n. notification_owner_id n = user_id current_user)
                        (notifications db)
      in collect (map notification_to_schema db_notifs))"

text \<open>
  The dictionary \<open>data\<close> of \<open>sync_notifications\<close>, as the row the commit writes from
  it. The timestamp is taken within the signed 64 bits of the store's INTEGER: beyond
  them the commit raises \<open>OverflowError\<close> and writes nothing, a path that is not
  followed here.
\<close>

definition notification_data :: "NotificationCreate \<Rightarrow> User \<Rightarrow> Notification" where
  "notification_data n current_user =
     \<lparr>notification_id = nc_id n, notification_subject_id = nc_subjectId n,
      notification_subject_name = nc_subjectName n, notification_type = nc_type n,
      notification_scheduled_hours = store_float (nc_scheduledHours n),
      notification_scheduled_time = nc_scheduledTime n,
      notification_scheduled_date = nc_scheduledDate n,
      notification_status = nc_status n, notification_read = nc_read n,
      notification_timestamp = nc_timestamp n,
      notification_owner_id = user_id current_user\<rparr>"

text \<open>
  The loop of \<open>sync_notifications\<close>. The session is created with \<open>autoflush=False\<close>
  (database.py) and nothing is flushed before the commit after the loop, so each
  lookup reads the table as the request found it (\<open>notifications db\<close>). What the loop
  builds up is the session's work: \<open>rows\<close>, the table with the attributes set so far
  on loaded rows, and \<open>new\<close>, the rows added and waiting for their INSERT.
\<close>

fun sync_loop ::
  "User \<Rightarrow> database \<Rightarrow> NotificationCreate list \<Rightarrow> Notification list \<times> Notification list \<Rightarrow>
   Notification list \<times> Notification list" where
  "sync_loop current_user db [] (rows, new) = (rows, new)"
| "sync_loop current_user db (n # ns) (rows, new) =
     (let db_n = first (filter (\<lambda>r. notification_id r = nc_id n \<and>
                                   notification_owner_id r = user_id current_user)
                          (notifications db));
          data = notification_data n current_user
      in case db_n of
           Some found \<Rightarrow>
             sync_loop current_user db ns (update_row notification_id data rows, new)
         | None \<Rightarrow> sync_loop current_user db ns (rows, new @ [data]))"

text \<open>
  \<open>sync_notifications\<close>: the loop, one commit (the UPDATEs and the INSERTs of the
  session; a rejected INSERT rolls all of it back), then the caller's list as
  \<open>read_notifications\<close> gives it.
\<close>

definition sync_notifications ::
  "NotificationCreate list \<Rightarrow> User \<Rightarrow> database \<Rightarrow> (error + Notification_out list) \<times> database" where
  "sync_notifications ns current_user db =
     (case sync_loop current_user db ns (notifications db, []) of
        (rows, new) \<Rightarrow>
          (case insert_rows notification_id new rows of
             Inl e \<Rightarrow> (Inl e, db)
           | Inr rows' \<Rightarrow>
               (let db' = db\<lparr>notifications := rows'\<rparr>
                in (read_notifications current_user db', db'))))"

section \<open>The stores the handlers reach\<close>

text \<open>
  The store is empty when the tables are created, and it changes only through the
  handlers that write: \<open>signup\<close>, and the five handlers behind \<open>get_current_user\<close>,
  whose caller is a row of the users table.
\<close>

inductive reachable :: "database \<Rightarrow> bool" where
  created: "reachable empty_db"
| by_signup: "reachable db \<Longrightarrow> reachable (snd (signup get_password_hash user db))"
| by_create_goal:
    "reachable db \<Longrightarrow> current_user \<in> set (users db) \<Longrightarrow>
     reachable (snd (create_goal goal current_user db))"
| by_delete_goal:
    "reachable db \<Longrightarrow> current_user \<in> set (users db) \<Longrightarrow>
     reachable (snd (delete_goal gid current_user db))"
| by_create_or_update_subject:
    "reachable db \<Longrightarrow> current_user \<in> set (users db) \<Longrightarrow>
     reachable (snd (create_or_update_subject subject current_user db))"
| by_delete_subject:
    "reachable db \<Longrightarrow> current_user \<in> set (users db) \<Longrightarrow>
     reachable (snd (delete_subject sid current_user db))"
| by_sync_notifications:
    "reachable db \<Longrightarrow> current_user \<in> set (users db) \<Longrightarrow>
     reachable (snd (sync_notifications ns current_user db))"

section \<open>Concrete stores and requests\<close>

text \<open>
  Two users as two signups leave them, and the payloads of the scenarios of the
  specification: a goal \<open>g1\<close>, a subject \<open>s1\<close> of that goal, a chapter of \<open>s1\<close>, and the
  notifications \<open>n1\<close> (pending) and \<open>n2\<close> (completed).
\<close>

definition demo_hash :: "string \<Rightarrow> string" where
  "demo_hash pw = ''hash:'' @ pw"

definition alice :: User where
  "alice = \<lparr>user_id = 1, user_email = ''a@x.com'', user_hashed_password = ''hash:pw123''\<rparr>"

definition bob :: User where
  "bob = \<lparr>user_id = 2, user_email = ''b@x.com'', user_hashed_password = ''hash:pw456''\<rparr>"

definition signup_alice :: UserCreate where
  "signup_alice = \<lparr>uc_email = ''a@x.com'', uc_password = ''pw123''\<rparr>"


definition signup_carol :: UserCreate where
  "signup_carol = \<lparr>uc_email = ''c@x.com'', uc_password = ''pw789''\<rparr>"

definition users_db :: database where
  "users_db = empty_db\<lparr>users := [alice, bob]\<rparr>"

definition demo_decode :: "string \<Rightarrow> jwt_error + (string \<rightharpoonup> string)" where
  "demo_decode token =
     (if token = ''token-a'' then Inr [''sub'' \<mapsto> ''a@x.com'']
      else if token = ''token-nosub'' then Inr Map.empty
      else if token = ''token-ghost'' then Inr [''sub'' \<mapsto> ''ghost@x.com'']
      else Inl JWTError)"

definition goal_g1 :: GoalCreate where
  "goal_g1 = \<lparr>gc_id = ''g1'', gc_title = ''Finals'', gc_type = ''EXAM'', gc_details = JNull\<rparr>"

definition goal_g1_retitled :: GoalCreate where
  "goal_g1_retitled =
     \<lparr>gc_id = ''g1'', gc_title = ''Finals 2'', gc_type = ''EXAM'', gc_details = JNull\<rparr>"

definition goal_g2 :: GoalCreate where
  "goal_g2 = \<lparr>gc_id = ''g2'', gc_title = ''June'', gc_type = ''MONTHLY'', gc_details = JNull\<rparr>"

definition subject_s1 :: SubjectCreate where
  "subject_s1 =
     \<lparr>sc_id = ''s1'', sc_goalId = ''g1'', sc_name = ''Math'', sc_color = ''red'',
      sc_trackingMode = ''SCHEDULE'', sc_schedule = JNull,
      sc_totalStudyHours = FloatVal 0,
      sc_totalTargetHours = None\<rparr>"

definition subject_s2 :: SubjectCreate where
  "subject_s2 =
     \<lparr>sc_id = ''s2'', sc_goalId = ''g1'', sc_name = ''Physics'', sc_color = ''blue'',
      sc_trackingMode = ''SCHEDULE'', sc_schedule = JNull,
      sc_totalStudyHours = FloatVal 0,
      sc_totalTargetHours = None\<rparr>"

definition chapter_c1 :: Chapter where
  "chapter_c1 =
     \<lparr>chapter_id = ''c1'', chapter_subject_id = ''s1'', chapter_name = ''Algebra'',
      chapter_target_date = ''2025-06-01'', chapter_target_time = None,
      chapter_estimated_duration = None, chapter_completed = False\<rparr>"

definition chapter_c2 :: Chapter where
  "chapter_c2 =
     \<lparr>chapter_id = ''c2'', chapter_subject_id = ''s2'', chapter_name = ''Optics'',
      chapter_target_date = ''2025-06-02'', chapter_target_time = None,
      chapter_estimated_duration = None, chapter_completed = False\<rparr>"

definition notif_n1 :: NotificationCreate where
  "notif_n1 =
     \<lparr>nc_id = ''n1'', nc_subjectId = ''s1'', nc_subjectName = ''Math'', nc_type = ''REMINDER'',
      nc_scheduledHours = FloatVal 1, nc_scheduledTime = ''09:00'', nc_scheduledDate = ''2025-06-01'',
      nc_status = ''PENDING'', nc_read = False, nc_timestamp = 1000\<rparr>"

definition notif_n1_completed :: NotificationCreate where
  "notif_n1_completed = notif_n1\<lparr>nc_status := ''COMPLETED''\<rparr>"

definition notif_n2 :: NotificationCreate where
  "notif_n2 =
     \<lparr>nc_id = ''n2'', nc_subjectId = ''s1'', nc_subjectName = ''Math'', nc_type = ''REMINDER'',
      nc_scheduledHours = FloatVal 2, nc_scheduledTime = ''10:00'', nc_scheduledDate = ''2025-06-02'',
      nc_status = ''COMPLETED'', nc_read = False, nc_timestamp = 2000\<rparr>"

text \<open>
  The store after alice has created the goal \<open>g1\<close> and the subject \<open>s1\<close>, with one
  chapter of \<open>s1\<close> in the chapters table and her notification \<open>n1\<close>.
\<close>

definition alice_db :: database where
  "alice_db =
     \<lparr>users = [alice, bob],
      goals = [\<lparr>goal_id = ''g1'', goal_title = ''Finals'', goal_type = ''EXAM'',
                goal_details = Kept JNull, goal_owner_id = 1\<rparr>],
      subjects = [subject_data subject_s1 alice],
      chapters = [chapter_c1],
      notifications = [notification_data notif_n1 alice]\<rparr>"

text \<open>
  The store after bob has created the goal \<open>g1\<close>, and then after alice has posted the
  subject \<open>s1\<close> with \<open>goalId = "g1"\<close>: the payload's goal reference is any string.
\<close>

definition bobs_goal_db :: database where
  "bobs_goal_db = snd (create_goal goal_g1 bob users_db)"

definition shared_goal_db :: database where
  "shared_goal_db = snd (create_or_update_subject subject_s1 alice bobs_goal_db)"


text \<open>A subject payload whose hours are NaN.\<close>

definition subject_nan :: SubjectCreate where
  "subject_nan = subject_s1\<lparr>sc_totalStudyHours := NaN, sc_totalTargetHours := Some NaN\<rparr>"

section \<open>Basic facts about the store\<close>

lemma store_float_simps [simp]:
  "store_float (FloatVal x) = Some (FloatVal x)"
  "store_float PosInf = Some PosInf"
  "store_float NegInf = Some NegInf"
  "store_float NaN = None"
  by (simp_all add: store_float_def)

lemma store_float_opt_simps [simp]:
  "store_float_opt None = None"
  "store_float_opt (Some x) = store_float x"
  by (simp_all add: store_float_opt_def)

lemma store_json_simps [simp]:
  "store_json JNull = Kept JNull"
  "store_json (JBool b) = Kept (JBool b)"
  "store_json (JNum (FloatVal x)) = Numeric x"
  "store_json (JNum PosInf) = Kept (JNum PosInf)"
  "store_json (JNum NegInf) = Kept (JNum NegInf)"
  "store_json (JNum NaN) = Kept (JNum NaN)"
  "store_json (JStr s) = Kept (JStr s)"
  "store_json (JArr js) = Kept (JArr js)"
  "store_json (JObj kvs) = Kept (JObj kvs)"
  by (simp_all add: store_json_def)

lemma first_None_iff: "first xs = None \<longleftrightarrow> xs = []"
  by (cases xs) (simp_all add: first_def)

lemma first_filter_None_iff: "first (filter P xs) = None \<longleftrightarrow> (\<forall>x \<in> set xs. \<not> P x)"
  by (simp add: first_None_iff filter_empty_conv)

lemma first_filter_Some: "first (filter P xs) = Some x \<Longrightarrow> x \<in> set xs \<and> P x"
proof -
  assume a: "first (filter P xs) = Some x"
  then obtain ys where "filter P xs = x # ys"
    by (cases "filter P xs") (simp_all add: first_def)
  then have "x \<in> set (filter P xs)" by simp
  then show ?thesis by simp
qed

lemma fold_max_ge: "(a::int) \<le> fold max xs a"
  by (induction xs arbitrary: a) (auto intro: order_trans [OF max.cobounded2])

lemma fold_max_upper: "x \<in> set xs \<Longrightarrow> (x::int) \<le> fold max xs a"
proof (induction xs arbitrary: a)
  case Nil
  then show ?case by simp
next
  case (Cons y ys)
  show ?case
  proof (cases "x = y")
    case True
    have "y \<le> max y a" by simp
    also have "\<dots> \<le> fold max ys (max y a)" by (rule fold_max_ge)
    finally show ?thesis using True by simp
  next
    case False
    with Cons.prems have "x \<in> set ys" by simp
    then show ?thesis using Cons.IH by simp
  qed
qed

lemma next_user_id_fresh: "next_user_id us \<notin> set (map user_id us)"
proof
  assume "next_user_id us \<in> set (map user_id us)"
  then have "next_user_id us \<le> fold max (map user_id us) 0"
    by (rule fold_max_upper)
  then show False by (simp add: next_user_id_def)
qed

lemma first_filter_Some_iff: "(\<exists>y. first (filter P xs) = Some y) \<longleftrightarrow> (\<exists>x \<in> set xs. P x)"
  using first_filter_None_iff [of P xs] by (cases "first (filter P xs)") auto

lemma insert_row_fresh: "key r \<notin> set (map key rows) \<Longrightarrow> insert_row key r rows = Inr (rows @ [r])"
  by (simp add: insert_row_def)

lemma insert_row_taken: "key r \<in> set (map key rows) \<Longrightarrow> insert_row key r rows = Inl IntegrityError"
  by (simp add: insert_row_def)

lemma insert_rows_eq:
  "insert_rows key new rows =
     (if distinct (map key new) \<and> set (map key new) \<inter> set (map key rows) = {}
      then Inr (rows @ new) else Inl IntegrityError)"
proof (induction new arbitrary: rows)
  case Nil
  then show ?case by simp
next
  case (Cons r rs)
  show ?case
  proof (cases "key r \<in> set (map key rows)")
    case True
    then show ?thesis by (auto simp: insert_row_def)
  next
    case False
    then have "insert_rows key (r # rs) rows = insert_rows key rs (rows @ [r])"
      by (simp add: insert_row_def)
    also have "\<dots> = (if distinct (map key rs) \<and> set (map key rs) \<inter> set (map key (rows @ [r])) = {}
      then Inr ((rows @ [r]) @ rs) else Inl IntegrityError)"
      by (rule Cons.IH)
    finally show ?thesis using False by auto
  qed
qed

lemma update_row_length: "length (update_row key r rows) = length rows"
  by (simp add: update_row_def)

lemma update_row_set: "x \<in> set (update_row key r rows) \<Longrightarrow> x \<in> set rows \<or> x = r"
  by (auto simp: update_row_def split: if_splits)

lemma update_row_map:
  "(\<forall>x \<in> set rows. key x = key r \<longrightarrow> f x = f r) \<Longrightarrow> map f (update_row key r rows) = map f rows"
  by (induction rows) (simp_all add: update_row_def)

lemma update_row_keys: "map key (update_row key r rows) = map key rows"
  by (rule update_row_map) simp

lemma update_row_idem: "update_row key r (update_row key r rows) = update_row key r rows"
  by (induction rows) (simp_all add: update_row_def)

lemma update_row_absent: "key r \<notin> set (map key rows) \<Longrightarrow> update_row key r rows = rows"
  by (induction rows) (auto simp: update_row_def)

lemma filter_key_unique:
  "distinct (map key rows) \<Longrightarrow> r0 \<in> set rows \<Longrightarrow> filter (\<lambda>x. key x = key r0) rows = [r0]"
proof (induction rows)
  case Nil
  then show ?case by simp
next
  case (Cons a rows)
  show ?case
  proof (cases "a = r0")
    case True
    from Cons.prems have "\<forall>x \<in> set rows. key x \<noteq> key a"
      by (auto simp: image_iff)
    then have "filter (\<lambda>x. key x = key a) rows = []" by (simp add: filter_empty_conv)
    with True show ?thesis by simp
  next
    case False
    with Cons.prems have in_rows: "r0 \<in> set rows" by simp
    with Cons.prems have "key a \<noteq> key r0"
      by (auto simp: image_iff)
    moreover from Cons.prems in_rows have "filter (\<lambda>x. key x = key r0) rows = [r0]"
      using Cons.IH by simp
    ultimately show ?thesis by simp
  qed
qed

lemma filter_key_update_row:
  "distinct (map key rows) \<Longrightarrow> r0 \<in> set rows \<Longrightarrow> key r0 = key r \<Longrightarrow>
   filter (\<lambda>x. key x = key r) (update_row key r rows) = [r]"
proof -
  assume d: "distinct (map key rows)" and m: "r0 \<in> set rows" and k: "key r0 = key r"
  have "filter (\<lambda>x. key x = key r) (update_row key r rows) =
        map (\<lambda>x. if key x = key r then r else x) (filter (\<lambda>x. key x = key r) rows)"
    by (induction rows) (simp_all add: update_row_def)
  also have "filter (\<lambda>x. key x = key r) rows = [r0]"
    using filter_key_unique [OF d m] k by simp
  finally show ?thesis using k by simp
qed

section \<open>The subject upsert\<close>

lemma key_unique_row:
  "distinct (map key rows) \<Longrightarrow> x \<in> set rows \<Longrightarrow> y \<in> set rows \<Longrightarrow> key x = key y \<Longrightarrow> x = y"
  by (auto simp: distinct_map dest: inj_onD)

lemma upsert_found:
  assumes "\<exists>s \<in> set (subjects db). subject_id s = sc_id subject \<and> subject_owner_id s = user_id u"
  shows "snd (create_or_update_subject subject u db) =
           db\<lparr>subjects := update_row subject_id (subject_data subject u) (subjects db)\<rparr>"
proof -
  from assms obtain y where "first (filter (\<lambda>s. subject_id s = sc_id subject \<and>
      subject_owner_id s = user_id u) (subjects db)) = Some y"
    using first_filter_Some_iff [of "\<lambda>s. subject_id s = sc_id subject \<and>
      subject_owner_id s = user_id u" "subjects db"] by blast
  then show ?thesis by (simp add: create_or_update_subject_def Let_def)
qed

lemma upsert_fresh:
  assumes "sc_id subject \<notin> set (map subject_id (subjects db))"
  shows "snd (create_or_update_subject subject u db) =
           db\<lparr>subjects := subjects db @ [subject_data subject u]\<rparr>"
proof -
  from assms have "first (filter (\<lambda>s. subject_id s = sc_id subject \<and>
      subject_owner_id s = user_id u) (subjects db)) = None"
    by (force simp: first_filter_None_iff)
  moreover from assms have "subject_id (subject_data subject u) \<notin> set (map subject_id (subjects db))"
    by (simp add: subject_data_def)
  ultimately show ?thesis
    by (simp add: create_or_update_subject_def Let_def insert_row_fresh)
qed

lemma upsert_other_owner:
  assumes d: "distinct (map subject_id (subjects db))"
    and c: "\<exists>s \<in> set (subjects db). subject_id s = sc_id subject \<and> subject_owner_id s \<noteq> user_id u"
  shows "create_or_update_subject subject u db = (Inl IntegrityError, db)"
proof -
  from c obtain s where s: "s \<in> set (subjects db)" "subject_id s = sc_id subject"
    "subject_owner_id s \<noteq> user_id u" by blast
  have "\<forall>x \<in> set (subjects db). \<not> (subject_id x = sc_id subject \<and> subject_owner_id x = user_id u)"
  proof
    fix x assume x: "x \<in> set (subjects db)"
    show "\<not> (subject_id x = sc_id subject \<and> subject_owner_id x = user_id u)"
    proof
      assume a: "subject_id x = sc_id subject \<and> subject_owner_id x = user_id u"
      with s have "subject_id x = subject_id s" by simp
      with d x s(1) have "x = s" by (rule key_unique_row)
      with a s(3) show False by simp
    qed
  qed
  then have none: "first (filter (\<lambda>s. subject_id s = sc_id subject \<and>
      subject_owner_id s = user_id u) (subjects db)) = None"
    by (simp add: first_None_iff filter_empty_conv)
  from s have "subject_id (subject_data subject u) \<in> set (map subject_id (subjects db))"
    by (force simp: subject_data_def)
  then have "insert_row subject_id (subject_data subject u) (subjects db) = Inl IntegrityError"
    by (rule insert_row_taken)
  with none show ?thesis by (simp add: create_or_update_subject_def Let_def)
qed

lemma upsert_key_owner:
  assumes d: "distinct (map subject_id (subjects db))"
  shows "map (\<lambda>s. (subject_id s, subject_owner_id s))
           (take (length (subjects db)) (subjects (snd (create_or_update_subject subject u db)))) =
         map (\<lambda>s. (subject_id s, subject_owner_id s)) (subjects db)"
proof (cases "first (filter (\<lambda>s. subject_id s = sc_id subject \<and>
      subject_owner_id s = user_id u) (subjects db))")
  case None
  then show ?thesis
    by (simp add: create_or_update_subject_def Let_def insert_row_def)
next
  case (Some found)
  then have f: "found \<in> set (subjects db)" "subject_id found = sc_id subject"
    "subject_owner_id found = user_id u"
    using first_filter_Some [OF Some] by simp_all
  have "\<forall>x \<in> set (subjects db). subject_id x = subject_id (subject_data subject u) \<longrightarrow>
      (subject_id x, subject_owner_id x) =
      (subject_id (subject_data subject u), subject_owner_id (subject_data subject u))"
  proof (intro ballI impI)
    fix x assume x: "x \<in> set (subjects db)"
      and k: "subject_id x = subject_id (subject_data subject u)"
    from k f have "subject_id x = subject_id found" by (simp add: subject_data_def)
    with d x f(1) have "x = found" by (rule key_unique_row)
    with f show "(subject_id x, subject_owner_id x) =
      (subject_id (subject_data subject u), subject_owner_id (subject_data subject u))"
      by (simp add: subject_data_def)
  qed
  then have "map (\<lambda>s. (subject_id s, subject_owner_id s))
      (update_row subject_id (subject_data subject u) (subjects db)) =
      map (\<lambda>s. (subject_id s, subject_owner_id s)) (subjects db)"
    by (rule update_row_map)
  with Some show ?thesis
    by (simp add: create_or_update_subject_def Let_def update_row_length)
qed

section \<open>The loop of the notification sync\<close>

lemma sync_loop_keys:
  "map notification_id (fst (sync_loop u db ns (rows, new))) = map notification_id rows"
proof (induction ns arbitrary: rows new)
  case Nil
  then show ?case by simp
next
  case (Cons n ns)
  show ?case
    by (cases "first (filter (\<lambda>r. notification_id r = nc_id n \<and>
                 notification_owner_id r = user_id u) (notifications db))")
       (simp_all add: Cons.IH update_row_keys)
qed

lemma sync_loop_rows_mem:
  "x \<in> set (fst (sync_loop u db ns (rows, new))) \<Longrightarrow>
   x \<in> set rows \<or> notification_owner_id x = user_id u"
proof (induction ns arbitrary: rows new)
  case Nil
  then show ?case by simp
next
  case (Cons n ns)
  show ?case
  proof (cases "first (filter (\<lambda>r. notification_id r = nc_id n \<and>
                 notification_owner_id r = user_id u) (notifications db))")
    case None
    with Cons.prems have "x \<in> set (fst (sync_loop u db ns (rows, new @ [notification_data n u])))"
      by simp
    then show ?thesis by (rule Cons.IH)
  next
    case (Some found)
    with Cons.prems have "x \<in> set (fst (sync_loop u db ns
        (update_row notification_id (notification_data n u) rows, new)))"
      by simp
    then have "x \<in> set (update_row notification_id (notification_data n u) rows) \<or>
        notification_owner_id x = user_id u"
      by (rule Cons.IH)
    then show ?thesis
      by (auto dest: update_row_set simp: notification_data_def)
  qed
qed

lemma sync_loop_new_mem:
  "x \<in> set (snd (sync_loop u db ns (rows, new))) \<Longrightarrow>
   x \<in> set new \<or> notification_owner_id x = user_id u"
proof (induction ns arbitrary: rows new)
  case Nil
  then show ?case by simp
next
  case (Cons n ns)
  show ?case
  proof (cases "first (filter (\<lambda>r. notification_id r = nc_id n \<and>
                 notification_owner_id r = user_id u) (notifications db))")
    case None
    with Cons.prems have "x \<in> set (snd (sync_loop u db ns (rows, new @ [notification_data n u])))"
      by simp
    then have "x \<in> set (new @ [notification_data n u]) \<or> notification_owner_id x = user_id u"
      by (rule Cons.IH)
    then show ?thesis by (auto simp: notification_data_def)
  next
    case (Some found)
    with Cons.prems have "x \<in> set (snd (sync_loop u db ns
        (update_row notification_id (notification_data n u) rows, new)))"
      by simp
    then show ?thesis by (rule Cons.IH)
  qed
qed

lemma sync_notifications_table:
  "notifications (snd (sync_notifications ns u db)) = notifications db \<or>
   notifications (snd (sync_notifications ns u db)) =
     fst (sync_loop u db ns (notifications db, [])) @ snd (sync_loop u db ns (notifications db, []))"
  by (cases "sync_loop u db ns (notifications db, [])")
     (auto simp: sync_notifications_def insert_rows_eq Let_def)

lemma sync_notifications_frame:
  "snd (sync_notifications ns u db) =
     db\<lparr>notifications := notifications (snd (sync_notifications ns u db))\<rparr>"
  by (cases "sync_loop u db ns (notifications db, [])")
     (auto simp: sync_notifications_def insert_rows_eq Let_def)

lemma sync_loop_new_mono:
  "x \<in> set new \<Longrightarrow> x \<in> set (snd (sync_loop u db ns (rows, new)))"
proof (induction ns arbitrary: rows new)
  case Nil
  then show ?case by simp
next
  case (Cons n ns)
  show ?case
    by (cases "first (filter (\<lambda>r. notification_id r = nc_id n \<and>
                 notification_owner_id r = user_id u) (notifications db))")
       (simp_all add: Cons.IH Cons.prems)
qed

lemma sync_loop_new_contains:
  "n \<in> set ns \<Longrightarrow>
   first (filter (\<lambda>r. notification_id r = nc_id n \<and> notification_owner_id r = user_id u)
            (notifications db)) = None \<Longrightarrow>
   notification_data n u \<in> set (snd (sync_loop u db ns (rows, new)))"
proof (induction ns arbitrary: rows new)
  case Nil
  then show ?case by simp
next
  case (Cons m ns)
  show ?case
  proof (cases "n = m")
    case True
    with Cons.prems(2) have "snd (sync_loop u db (m # ns) (rows, new)) =
        snd (sync_loop u db ns (rows, new @ [notification_data n u]))"
      by simp
    then show ?thesis by (simp add: sync_loop_new_mono)
  next
    case False
    with Cons.prems have "n \<in> set ns" by simp
    then have ih: "\<And>rows new. notification_data n u \<in> set (snd (sync_loop u db ns (rows, new)))"
      using Cons.IH Cons.prems(2) by blast
    show ?thesis
      by (cases "first (filter (\<lambda>r. notification_id r = nc_id m \<and>
                 notification_owner_id r = user_id u) (notifications db))")
         (simp_all add: ih)
  qed
qed

lemma sync_loop_key_owner:
  assumes d: "distinct (map notification_id (notifications db))"
  shows "map (\<lambda>n. (notification_id n, notification_owner_id n)) rows =
           map (\<lambda>n. (notification_id n, notification_owner_id n)) (notifications db) \<Longrightarrow>
         map (\<lambda>n. (notification_id n, notification_owner_id n))
           (fst (sync_loop u db ns (rows, new))) =
         map (\<lambda>n. (notification_id n, notification_owner_id n)) (notifications db)"
proof (induction ns arbitrary: rows new)
  case Nil
  then show ?case by simp
next
  case (Cons n ns)
  let ?f = "\<lambda>n. (notification_id n, notification_owner_id n)"
  let ?data = "notification_data n u"
  show ?case
  proof (cases "first (filter (\<lambda>r. notification_id r = nc_id n \<and>
                 notification_owner_id r = user_id u) (notifications db))")
    case None
    then show ?thesis using Cons.IH [OF Cons.prems] by simp
  next
    case (Some found)
    then have f: "found \<in> set (notifications db)" "notification_id found = nc_id n"
      "notification_owner_id found = user_id u"
      using first_filter_Some [OF Some] by simp_all
    have "\<forall>x \<in> set rows. notification_id x = notification_id ?data \<longrightarrow> ?f x = ?f ?data"
    proof (intro ballI impI)
      fix x assume x: "x \<in> set rows" and k: "notification_id x = notification_id ?data"
      from x have "?f x \<in> set (map ?f rows)" by simp
      with Cons.prems have "?f x \<in> set (map ?f (notifications db))" by simp
      then obtain y where y: "y \<in> set (notifications db)" "?f y = ?f x" by auto
      from y(2) k f(2) have "notification_id y = notification_id found"
        by (simp add: notification_data_def)
      with d y(1) f(1) have "y = found" by (rule key_unique_row)
      with y(2) f k show "?f x = ?f ?data" by (simp add: notification_data_def)
    qed
    then have "map ?f (update_row notification_id ?data rows) = map ?f rows"
      by (rule update_row_map)
    with Cons.prems have "map ?f (update_row notification_id ?data rows) =
        map ?f (notifications db)" by simp
    then have "map ?f (fst (sync_loop u db ns (update_row notification_id ?data rows, new))) =
        map ?f (notifications db)" by (rule Cons.IH)
    with Some show ?thesis by simp
  qed
qed

lemma sync_other_owner:
  assumes d: "distinct (map notification_id (notifications db))"
    and c: "\<exists>r \<in> set (notifications db). \<exists>n \<in> set ns.
              notification_id r = nc_id n \<and> notification_owner_id r \<noteq> user_id u"
  shows "sync_notifications ns u db = (Inl IntegrityError, db)"
proof -
  from c obtain r n where r: "r \<in> set (notifications db)" and n: "n \<in> set ns"
    and k: "notification_id r = nc_id n" and o: "notification_owner_id r \<noteq> user_id u"
    by blast
  obtain rows new where loop: "sync_loop u db ns (notifications db, []) = (rows, new)"
    by (cases "sync_loop u db ns (notifications db, [])") simp
  have "\<forall>x \<in> set (notifications db).
      \<not> (notification_id x = nc_id n \<and> notification_owner_id x = user_id u)"
  proof
    fix x assume x: "x \<in> set (notifications db)"
    show "\<not> (notification_id x = nc_id n \<and> notification_owner_id x = user_id u)"
    proof
      assume a: "notification_id x = nc_id n \<and> notification_owner_id x = user_id u"
      with k have "notification_id x = notification_id r" by simp
      with d x r have "x = r" by (rule key_unique_row)
      with a o show False by simp
    qed
  qed
  then have "first (filter (\<lambda>r. notification_id r = nc_id n \<and>
      notification_owner_id r = user_id u) (notifications db)) = None"
    by (simp add: first_None_iff filter_empty_conv)
  with n have "notification_data n u \<in> set (snd (sync_loop u db ns (notifications db, [])))"
    by (rule sync_loop_new_contains)
  with loop have "notification_data n u \<in> set new" by simp
  then have a: "nc_id n \<in> set (map notification_id new)"
    by (force simp: notification_data_def)
  have "map notification_id (fst (sync_loop u db ns (notifications db, []))) =
      map notification_id (notifications db)" by (rule sync_loop_keys)
  with loop have "map notification_id rows = map notification_id (notifications db)" by simp
  with r k have b: "nc_id n \<in> set (map notification_id rows)" by force
  from a b have "set (map notification_id new) \<inter> set (map notification_id rows) \<noteq> {}"
    by blast
  then have "insert_rows notification_id new rows = Inl IntegrityError"
    by (simp add: insert_rows_eq)
  with loop show ?thesis by (simp add: sync_notifications_def)
qed

lemma sync_key_owner:
  assumes d: "distinct (map notification_id (notifications db))"
  shows "map (\<lambda>n. (notification_id n, notification_owner_id n))
           (take (length (notifications db)) (notifications (snd (sync_notifications ns u db)))) =
         map (\<lambda>n. (notification_id n, notification_owner_id n)) (notifications db)"
proof -
  let ?f = "\<lambda>n. (notification_id n, notification_owner_id n)"
  let ?loop = "sync_loop u db ns (notifications db, [])"
  have ko: "map ?f (fst ?loop) = map ?f (notifications db)"
    by (rule sync_loop_key_owner [OF d]) simp
  then have len: "length (fst ?loop) = length (notifications db)"
    by (rule map_eq_imp_length_eq)
  from sync_notifications_table [of ns u db] show ?thesis
  proof
    assume "notifications (snd (sync_notifications ns u db)) = notifications db"
    then show ?thesis by simp
  next
    assume "notifications (snd (sync_notifications ns u db)) = fst ?loop @ snd ?loop"
    with len ko show ?thesis by simp
  qed
qed

section \<open>The concrete stores are reached through the handlers\<close>


lemma bobs_goal_db_eq:
  "bobs_goal_db = users_db\<lparr>goals := [\<lparr>goal_id = ''g1'', goal_title = ''Finals'',
       goal_type = ''EXAM'', goal_details = Kept JNull, goal_owner_id = 2\<rparr>]\<rparr>"
  by (simp add: bobs_goal_db_def create_goal_def insert_row_def Let_def goal_g1_def bob_def
      users_db_def empty_db_def)

lemma shared_goal_db_eq:
  "shared_goal_db = bobs_goal_db\<lparr>subjects := [subject_data subject_s1 alice]\<rparr>"
  by (simp add: shared_goal_db_def bobs_goal_db_eq create_or_update_subject_def insert_row_def
      first_def Let_def users_db_def empty_db_def)

lemma alice_db_keys_unique: "keys_unique alice_db"
  by (simp add: keys_unique_def alice_db_def alice_def bob_def)

section \<open>The key constraints are an invariant\<close>

lemma insert_row_distinct:
  "insert_row key r rows = Inr rows' \<Longrightarrow> distinct (map key rows) \<Longrightarrow> distinct (map key rows')"
  by (auto simp: insert_row_def split: if_splits)

lemma insert_rows_distinct:
  assumes "insert_rows key new rows = Inr rows'" and d: "distinct (map key rows)"
  shows "distinct (map key rows')"
proof -
  from assms(1) have ok: "distinct (map key new) \<and> set (map key new) \<inter> set (map key rows) = {}"
    and eq: "rows' = rows @ new"
    by (simp_all add: insert_rows_eq split: if_splits)
  from ok d have "distinct (map key rows @ map key new)"
    by (simp only: distinct_append) blast
  with eq show ?thesis by simp
qed

lemma delete_row_distinct: "distinct (map key rows) \<Longrightarrow> distinct (map key (delete_row key k rows))"
  by (simp add: delete_row_def distinct_map_filter)

lemma keys_unique_empty_db: "keys_unique empty_db"
  by (simp add: keys_unique_def empty_db_def)

lemma keys_unique_signup:
  assumes "keys_unique db"
  shows "keys_unique (snd (signup get_password_hash user db))"
proof (cases "uc_email user \<in> set (map user_email (users db))")
  case True
  then obtain y where "first (filter (\<lambda>u. user_email u = uc_email user) (users db)) = Some y"
    using first_filter_Some_iff [of "\<lambda>u. user_email u = uc_email user" "users db"] by auto
  with assms show ?thesis by (simp add: signup_def)
next
  case False
  then have "first (filter (\<lambda>u. user_email u = uc_email user) (users db)) = None"
    by (force simp: first_filter_None_iff)
  with False assms next_user_id_fresh [of "users db"] show ?thesis
    by (simp add: signup_def insert_user_def insert_row_def Let_def keys_unique_def)
qed

lemma keys_unique_create_goal:
  assumes "keys_unique db"
  shows "keys_unique (snd (create_goal goal current_user db))"
  using assms by (simp add: create_goal_def insert_row_def Let_def keys_unique_def)

lemma keys_unique_delete_goal:
  assumes "keys_unique db"
  shows "keys_unique (snd (delete_goal gid current_user db))"
  using assms
  by (simp add: delete_goal_def delete_row_def keys_unique_def distinct_map_filter
      split: option.splits)

lemma keys_unique_create_or_update_subject:
  assumes "keys_unique db"
  shows "keys_unique (snd (create_or_update_subject subject current_user db))"
  using assms
  by (simp add: create_or_update_subject_def insert_row_def Let_def keys_unique_def
      update_row_keys subject_data_def split: option.splits)

lemma keys_unique_delete_subject:
  assumes "keys_unique db"
  shows "keys_unique (snd (delete_subject sid current_user db))"
  using assms
  by (simp add: delete_subject_def delete_row_def keys_unique_def distinct_map_filter
      split: option.splits)

lemma keys_unique_sync_notifications:
  assumes "keys_unique db"
  shows "keys_unique (snd (sync_notifications ns current_user db))"
proof -
  obtain rows new where loop: "sync_loop current_user db ns (notifications db, []) = (rows, new)"
    by (cases "sync_loop current_user db ns (notifications db, [])") simp
  have "map notification_id (fst (sync_loop current_user db ns (notifications db, []))) =
      map notification_id (notifications db)" by (rule sync_loop_keys)
  with loop have keys: "map notification_id rows = map notification_id (notifications db)"
    by simp
  show ?thesis
  proof (cases "insert_rows notification_id new rows")
    case (Inl e)
    with loop assms show ?thesis by (simp add: sync_notifications_def)
  next
    case (Inr rows')
    from assms have "distinct (map notification_id rows)"
      by (simp add: keys keys_unique_def)
    with Inr have "distinct (map notification_id rows')" by (rule insert_rows_distinct)
    with Inr loop assms show ?thesis
      by (simp add: sync_notifications_def Let_def keys_unique_def)
  qed
qed

text \<open>
  The key constraints hold in the empty store and every handler that writes keeps
  them: the stores the handlers can reach are stores with unique keys.
\<close>

theorem keys_unique_invariant:
  "keys_unique empty_db \<and>
   (keys_unique db \<longrightarrow>
      keys_unique (snd (signup get_password_hash user db)) \<and>
      keys_unique (snd (create_goal goal current_user db)) \<and>
      keys_unique (snd (delete_goal gid current_user db)) \<and>
      keys_unique (snd (create_or_update_subject subject current_user db)) \<and>
      keys_unique (snd (delete_subject sid current_user db)) \<and>
      keys_unique (snd (sync_notifications ns current_user db)))"
  by (simp add: keys_unique_empty_db keys_unique_signup keys_unique_create_goal
      keys_unique_delete_goal keys_unique_create_or_update_subject keys_unique_delete_subject
      keys_unique_sync_notifications)

theorem keys_unique_invariant_example:
  "keys_unique alice_db \<and>
   keys_unique (snd (signup demo_hash signup_carol alice_db)) \<and>
   keys_unique (snd (create_goal goal_g2 bob alice_db)) \<and>
   keys_unique (snd (delete_goal ''g1'' alice alice_db)) \<and>
   keys_unique (snd (create_or_update_subject subject_s2 bob alice_db)) \<and>
   keys_unique (snd (delete_subject ''s1'' alice alice_db)) \<and>
   keys_unique (snd (sync_notifications [notif_n2] bob alice_db))"
  using alice_db_keys_unique keys_unique_invariant [of alice_db demo_hash signup_carol goal_g2 bob
      "''g1''" subject_s2 "''s1''" "[notif_n2]"]
    keys_unique_invariant [of alice_db demo_hash signup_carol goal_g2 alice
      "''g1''" subject_s2 "''s1''" "[notif_n2]"]
  by blast

section \<open>Rows of other owners\<close>

lemma update_row_filter:
  "(\<forall>x \<in> set rows. key x = key r \<longrightarrow> \<not> P x) \<Longrightarrow> \<not> P r \<Longrightarrow>
   filter P (update_row key r rows) = filter P rows"
  by (induction rows) (simp_all add: update_row_def)

lemma delete_row_filter:
  assumes d: "distinct (map key rows)" and m: "r0 \<in> set rows" and n: "\<not> P r0"
  shows "filter P (delete_row key (key r0) rows) = filter P rows"
proof -
  have "\<forall>x \<in> set rows. (key x \<noteq> key r0 \<and> P x) = P x"
  proof
    fix x assume x: "x \<in> set rows"
    show "(key x \<noteq> key r0 \<and> P x) = P x"
    proof (cases "key x = key r0")
      case True
      with d x m have "x = r0" by (rule key_unique_row)
      with n show ?thesis by simp
    next
      case False
      then show ?thesis by simp
    qed
  qed
  then have "filter (\<lambda>x. key x \<noteq> key r0 \<and> P x) rows = filter P rows"
    by (intro filter_cong) simp_all
  then show ?thesis by (simp add: delete_row_def)
qed

lemma sync_loop_rows_other:
  assumes d: "distinct (map notification_id (notifications db))"
  shows "map (\<lambda>n. (notification_id n, notification_owner_id n)) rows =
           map (\<lambda>n. (notification_id n, notification_owner_id n)) (notifications db) \<Longrightarrow>
         filter (\<lambda>n. notification_owner_id n \<noteq> user_id u) (fst (sync_loop u db ns (rows, new))) =
         filter (\<lambda>n. notification_owner_id n \<noteq> user_id u) rows"
proof (induction ns arbitrary: rows new)
  case Nil
  then show ?case by simp
next
  case (Cons n ns)
  let ?f = "\<lambda>n. (notification_id n, notification_owner_id n)"
  let ?P = "\<lambda>n. notification_owner_id n \<noteq> user_id u"
  let ?data = "notification_data n u"
  show ?case
  proof (cases "first (filter (\<lambda>r. notification_id r = nc_id n \<and>
                 notification_owner_id r = user_id u) (notifications db))")
    case None
    then show ?thesis using Cons.IH [OF Cons.prems] by simp
  next
    case (Some found)
    then have f: "found \<in> set (notifications db)" "notification_id found = nc_id n"
      "notification_owner_id found = user_id u"
      using first_filter_Some [OF Some] by simp_all
    have same: "\<forall>x \<in> set rows. notification_id x = notification_id ?data \<longrightarrow> ?f x = ?f ?data"
    proof (intro ballI impI)
      fix x assume x: "x \<in> set rows" and k: "notification_id x = notification_id ?data"
      from x have "?f x \<in> set (map ?f rows)" by simp
      with Cons.prems have "?f x \<in> set (map ?f (notifications db))" by simp
      then obtain y where y: "y \<in> set (notifications db)" "?f y = ?f x" by auto
      from y(2) k f(2) have "notification_id y = notification_id found"
        by (simp add: notification_data_def)
      with d y(1) f(1) have "y = found" by (rule key_unique_row)
      with y(2) f k show "?f x = ?f ?data" by (simp add: notification_data_def)
    qed
    then have "map ?f (update_row notification_id ?data rows) = map ?f rows"
      by (rule update_row_map)
    with Cons.prems have "map ?f (update_row notification_id ?data rows) =
        map ?f (notifications db)" by simp
    then have ih: "filter ?P (fst (sync_loop u db ns (update_row notification_id ?data rows, new))) =
        filter ?P (update_row notification_id ?data rows)" by (rule Cons.IH)
    from same have "\<forall>x \<in> set rows. notification_id x = notification_id ?data \<longrightarrow> \<not> ?P x"
      by (simp add: notification_data_def)
    moreover have "\<not> ?P ?data" by (simp add: notification_data_def)
    ultimately have "filter ?P (update_row notification_id ?data rows) = filter ?P rows"
      by (rule update_row_filter)
    with ih Some show ?thesis by simp
  qed
qed

lemma others_create_goal:
  "filter (\<lambda>g. goal_owner_id g \<noteq> user_id u) (goals (snd (create_goal goal u db))) =
   filter (\<lambda>g. goal_owner_id g \<noteq> user_id u) (goals db)"
  by (simp add: create_goal_def insert_row_def Let_def)

lemma others_delete_goal:
  assumes "distinct (map goal_id (goals db))"
  shows "filter (\<lambda>g. goal_owner_id g \<noteq> user_id u) (goals (snd (delete_goal gid u db))) =
         filter (\<lambda>g. goal_owner_id g \<noteq> user_id u) (goals db)"
proof (cases "first (filter (\<lambda>g. goal_id g = gid \<and> goal_owner_id g = user_id u) (goals db))")
  case None
  then show ?thesis by (simp add: delete_goal_def)
next
  case (Some found)
  then have f: "found \<in> set (goals db)" "\<not> (goal_owner_id found \<noteq> user_id u)"
    using first_filter_Some [OF Some] by simp_all
  from assms f have "filter (\<lambda>g. goal_owner_id g \<noteq> user_id u)
      (delete_row goal_id (goal_id found) (goals db)) =
      filter (\<lambda>g. goal_owner_id g \<noteq> user_id u) (goals db)"
    by (rule delete_row_filter)
  with Some show ?thesis by (simp add: delete_goal_def)
qed

lemma others_create_or_update_subject:
  assumes d: "distinct (map subject_id (subjects db))"
  shows "filter (\<lambda>s. subject_owner_id s \<noteq> user_id u)
           (subjects (snd (create_or_update_subject subject u db))) =
         filter (\<lambda>s. subject_owner_id s \<noteq> user_id u) (subjects db)"
proof (cases "first (filter (\<lambda>s. subject_id s = sc_id subject \<and>
      subject_owner_id s = user_id u) (subjects db))")
  case None
  then show ?thesis
    by (simp add: create_or_update_subject_def Let_def insert_row_def subject_data_def)
next
  case (Some found)
  then have f: "found \<in> set (subjects db)" "subject_id found = sc_id subject"
    "subject_owner_id found = user_id u"
    using first_filter_Some [OF Some] by simp_all
  have "\<forall>x \<in> set (subjects db). subject_id x = subject_id (subject_data subject u) \<longrightarrow>
      \<not> (subject_owner_id x \<noteq> user_id u)"
  proof (intro ballI impI)
    fix x assume x: "x \<in> set (subjects db)"
      and k: "subject_id x = subject_id (subject_data subject u)"
    from k f have "subject_id x = subject_id found" by (simp add: subject_data_def)
    with d x f(1) have "x = found" by (rule key_unique_row)
    with f show "\<not> (subject_owner_id x \<noteq> user_id u)" by simp
  qed
  moreover have "\<not> (subject_owner_id (subject_data subject u) \<noteq> user_id u)"
    by (simp add: subject_data_def)
  ultimately have "filter (\<lambda>s. subject_owner_id s \<noteq> user_id u)
      (update_row subject_id (subject_data subject u) (subjects db)) =
      filter (\<lambda>s. subject_owner_id s \<noteq> user_id u) (subjects db)"
    by (rule update_row_filter)
  with Some show ?thesis by (simp add: create_or_update_subject_def Let_def)
qed

lemma others_delete_subject:
  assumes "distinct (map subject_id (subjects db))"
  shows "filter (\<lambda>s. subject_owner_id s \<noteq> user_id u) (subjects (snd (delete_subject sid u db))) =
         filter (\<lambda>s. subject_owner_id s \<noteq> user_id u) (subjects db)"
proof (cases "first (filter (\<lambda>s. subject_id s = sid \<and> subject_owner_id s = user_id u)
    (subjects db))")
  case None
  then show ?thesis by (simp add: delete_subject_def)
next
  case (Some found)
  then have f: "found \<in> set (subjects db)" "\<not> (subject_owner_id found \<noteq> user_id u)"
    using first_filter_Some [OF Some] by simp_all
  from assms f have "filter (\<lambda>s. subject_owner_id s \<noteq> user_id u)
      (delete_row subject_id (subject_id found) (subjects db)) =
      filter (\<lambda>s. subject_owner_id s \<noteq> user_id u) (subjects db)"
    by (rule delete_row_filter)
  with Some show ?thesis by (simp add: delete_subject_def)
qed

lemma others_sync_notifications:
  assumes d: "distinct (map notification_id (notifications db))"
  shows "filter (\<lambda>n. notification_owner_id n \<noteq> user_id u)
           (notifications (snd (sync_notifications ns u db))) =
         filter (\<lambda>n. notification_owner_id n \<noteq> user_id u) (notifications db)"
proof -
  let ?P = "\<lambda>n. notification_owner_id n \<noteq> user_id u"
  let ?loop = "sync_loop u db ns (notifications db, [])"
  have rows: "filter ?P (fst ?loop) = filter ?P (notifications db)"
    by (rule sync_loop_rows_other [OF d]) simp
  have "\<forall>x \<in> set (snd ?loop). \<not> ?P x"
  proof
    fix x assume "x \<in> set (snd ?loop)"
    then have "x \<in> set [] \<or> notification_owner_id x = user_id u"
      by (rule sync_loop_new_mem)
    then show "\<not> ?P x" by simp
  qed
  then have new: "filter ?P (snd ?loop) = []" by (simp add: filter_empty_conv)
  from sync_notifications_table [of ns u db] show ?thesis
  proof
    assume "notifications (snd (sync_notifications ns u db)) = notifications db"
    then show ?thesis by simp
  next
    assume "notifications (snd (sync_notifications ns u db)) = fst ?loop @ snd ?loop"
    with rows new show ?thesis by simp
  qed
qed

text \<open>
  What the handlers other than the subject cascade of \<open>delete_goal\<close> do to the rows of
  other owners, in a store with unique keys: nothing. \<open>read_goals\<close> returns rows of the
  caller only, and each write leaves the rows of every other owner of its table as
  they were, in the same order.
\<close>

theorem rows_of_other_owners_untouched:
  assumes "keys_unique db"
  shows "(\<forall>g \<in> set (read_goals current_user db). goal_owner_id g = user_id current_user) \<and>
         filter (\<lambda>g. goal_owner_id g \<noteq> user_id current_user)
           (goals (snd (create_goal goal current_user db))) =
         filter (\<lambda>g. goal_owner_id g \<noteq> user_id current_user) (goals db) \<and>
         filter (\<lambda>g. goal_owner_id g \<noteq> user_id current_user)
           (goals (snd (delete_goal gid current_user db))) =
         filter (\<lambda>g. goal_owner_id g \<noteq> user_id current_user) (goals db) \<and>
         filter (\<lambda>s. subject_owner_id s \<noteq> user_id current_user)
           (subjects (snd (create_or_update_subject subject current_user db))) =
         filter (\<lambda>s. subject_owner_id s \<noteq> user_id current_user) (subjects db) \<and>
         filter (\<lambda>s. subject_owner_id s \<noteq> user_id current_user)
           (subjects (snd (delete_subject sid current_user db))) =
         filter (\<lambda>s. subject_owner_id s \<noteq> user_id current_user) (subjects db) \<and>
         filter (\<lambda>n. notification_owner_id n \<noteq> user_id current_user)
           (notifications (snd (sync_notifications ns current_user db))) =
         filter (\<lambda>n. notification_owner_id n \<noteq> user_id current_user) (notifications db)"
proof -
  from assms have dg: "distinct (map goal_id (goals db))"
    and ds: "distinct (map subject_id (subjects db))"
    and dn: "distinct (map notification_id (notifications db))"
    by (simp_all add: keys_unique_def)
  have r: "\<forall>g \<in> set (read_goals current_user db). goal_owner_id g = user_id current_user"
    by (simp add: read_goals_def)
  from r others_create_goal [of current_user goal db] others_delete_goal [OF dg, of current_user gid]
    others_create_or_update_subject [OF ds, of current_user subject]
    others_delete_subject [OF ds, of current_user sid]
    others_sync_notifications [OF dn, of current_user ns]
  show ?thesis by simp
qed

theorem rows_of_other_owners_untouched_example:
  "filter (\<lambda>s. subject_owner_id s \<noteq> user_id bob)
     (subjects (snd (create_or_update_subject subject_s2 bob alice_db))) =
     [subject_data subject_s1 alice] \<and>
   filter (\<lambda>n. notification_owner_id n \<noteq> user_id bob)
     (notifications (snd (sync_notifications [notif_n2] bob alice_db))) =
     [notification_data notif_n1 alice]"
proof -
  note inst = rows_of_other_owners_untouched [OF alice_db_keys_unique,
      of bob _ _ subject_s2 _ "[notif_n2]"]
  from inst have "filter (\<lambda>s. subject_owner_id s \<noteq> user_id bob)
     (subjects (snd (create_or_update_subject subject_s2 bob alice_db))) =
     filter (\<lambda>s. subject_owner_id s \<noteq> user_id bob) (subjects alice_db)" by blast
  then have a: "filter (\<lambda>s. subject_owner_id s \<noteq> user_id bob)
     (subjects (snd (create_or_update_subject subject_s2 bob alice_db))) =
     [subject_data subject_s1 alice]"
    by (simp add: alice_db_def subject_data_def alice_def bob_def)
  from inst have "filter (\<lambda>n. notification_owner_id n \<noteq> user_id bob)
     (notifications (snd (sync_notifications [notif_n2] bob alice_db))) =
     filter (\<lambda>n. notification_owner_id n \<noteq> user_id bob) (notifications alice_db)" by blast
  then have b: "filter (\<lambda>n. notification_owner_id n \<noteq> user_id bob)
     (notifications (snd (sync_notifications [notif_n2] bob alice_db))) =
     [notification_data notif_n1 alice]"
    by (simp add: alice_db_def notification_data_def alice_def bob_def)
  from a b show ?thesis by simp
qed

section \<open>Response models\<close>

lemma collect_subject_to_schema:
  "collect (map subject_to_schema xs) = (if xs = [] then Inr [] else Inl ValidationError)"
  by (cases xs) (simp_all add: subject_to_schema_def schemas_Subject_def)

lemma collect_notification_to_schema:
  "collect (map notification_to_schema xs) = (if xs = [] then Inr [] else Inl ValidationError)"
  by (cases xs) (simp_all add: notification_to_schema_def schemas_Notification_def)

text \<open>
  The responses that are built with \<open>schemas.Subject\<close> and \<open>schemas.Notification\<close>:
  the list handlers return the empty list for a caller without rows and raise
  \<open>ValidationError\<close> for any other caller, and \<open>create_or_update_subject\<close> never
  returns a subject: it ends with the integrity error (nothing written) or, after its
  commit, with \<open>ValidationError\<close>.
\<close>

theorem responses_built_without_owner_id:
  "read_subjects current_user db =
     (if filter (\<lambda>s. subject_owner_id s = user_id current_user) (subjects db) = []
      then Inr [] else Inl ValidationError) \<and>
   read_notifications current_user db =
     (if filter (\<lambda>n. notification_owner_id n = user_id current_user) (notifications db) = []
      then Inr [] else Inl ValidationError) \<and>
   (fst (create_or_update_subject subject current_user db) = Inl IntegrityError \<and>
      snd (create_or_update_subject subject current_user db) = db
    \<or> fst (create_or_update_subject subject current_user db) = Inl ValidationError)"
proof (intro conjI)
  show "read_subjects current_user db =
     (if filter (\<lambda>s. subject_owner_id s = user_id current_user) (subjects db) = []
      then Inr [] else Inl ValidationError)"
    by (simp only: read_subjects_def Let_def collect_subject_to_schema)
next
  show "read_notifications current_user db =
     (if filter (\<lambda>n. notification_owner_id n = user_id current_user) (notifications db) = []
      then Inr [] else Inl ValidationError)"
    by (simp only: read_notifications_def Let_def collect_notification_to_schema)
next
  show "fst (create_or_update_subject subject current_user db) = Inl IntegrityError \<and>
      snd (create_or_update_subject subject current_user db) = db
    \<or> fst (create_or_update_subject subject current_user db) = Inl ValidationError"
    by (simp add: create_or_update_subject_def Let_def insert_row_def subject_to_schema_def
        schemas_Subject_def split: option.splits)
qed

section \<open>Reachable stores\<close>


lemma reachable_keys_unique: "reachable db \<Longrightarrow> keys_unique db"
  by (induction rule: reachable.induct)
     (simp_all add: keys_unique_empty_db keys_unique_signup keys_unique_create_goal
        keys_unique_delete_goal keys_unique_create_or_update_subject keys_unique_delete_subject
        keys_unique_sync_notifications)




section \<open>Claims about authentication\<close>

text \<open>
  C5. Identity resolution fails in the same way on each of its three causes: a token
  that the decoder rejects, a decoded payload without the claim \<open>sub\<close>, and a claim
  that is the email of no stored user all give the one error value
  \<open>credentials_exception\<close> (status 401, the same detail text, the same header), and
  no failure of identity resolution gives any other error.
\<close>

theorem C5_unauthenticated_indistinguishable:
  "(jwt_decode token = Inl e \<longrightarrow>
      get_current_user jwt_decode db token = Inl credentials_exception) \<and>
   (jwt_decode token = Inr payload \<and> payload ''sub'' = None \<longrightarrow>
      get_current_user jwt_decode db token = Inl credentials_exception) \<and>
   (jwt_decode token = Inr payload \<and> payload ''sub'' = Some email \<and>
      email \<notin> set (map user_email (users db)) \<longrightarrow>
      get_current_user jwt_decode db token = Inl credentials_exception) \<and>
   (get_current_user jwt_decode db token = Inl err \<longrightarrow> err = credentials_exception)"
proof -
  have bad: "jwt_decode token = Inl e \<longrightarrow>
      get_current_user jwt_decode db token = Inl credentials_exception"
    by (cases e) (simp add: get_current_user_def)
  have absent: "jwt_decode token = Inr payload \<and> payload ''sub'' = None \<longrightarrow>
      get_current_user jwt_decode db token = Inl credentials_exception"
    by (simp add: get_current_user_def)
  have unknown: "jwt_decode token = Inr payload \<and> payload ''sub'' = Some email \<and>
      email \<notin> set (map user_email (users db)) \<longrightarrow>
      get_current_user jwt_decode db token = Inl credentials_exception"
  proof (intro impI, elim conjE)
    assume d: "jwt_decode token = Inr payload" and s: "payload ''sub'' = Some email"
      and n: "email \<notin> set (map user_email (users db))"
    from n have "first (filter (\<lambda>u. user_email u = email) (users db)) = None"
      by (auto simp: first_filter_None_iff)
    with d s show "get_current_user jwt_decode db token = Inl credentials_exception"
      by (simp add: get_current_user_def)
  qed
  have only: "get_current_user jwt_decode db token = Inl err \<longrightarrow> err = credentials_exception"
    by (auto simp: get_current_user_def split: sum.splits option.splits jwt_error.splits)
  from bad absent unknown only show ?thesis by blast
qed

text \<open>
  C5 at concrete tokens: one the decoder rejects, one without \<open>sub\<close>, one whose \<open>sub\<close>
  is no user's email; and a token of alice, which resolves to her row.
\<close>

theorem C5_unauthenticated_indistinguishable_witness:
  "get_current_user demo_decode users_db ''not a token'' = Inl credentials_exception \<and>
   get_current_user demo_decode users_db ''token-nosub'' = Inl credentials_exception \<and>
   get_current_user demo_decode users_db ''token-ghost'' = Inl credentials_exception \<and>
   get_current_user demo_decode users_db ''token-a'' = Inr alice"
proof -
  have d1: "demo_decode ''not a token'' = Inl JWTError"
    by (simp add: demo_decode_def)
  have d2: "demo_decode ''token-nosub'' = Inr Map.empty \<and> Map.empty ''sub'' = (None :: string option)"
    by (simp add: demo_decode_def)
  have d3: "demo_decode ''token-ghost'' = Inr [''sub'' \<mapsto> ''ghost@x.com''] \<and>
      [''sub'' \<mapsto> ''ghost@x.com''] ''sub'' = Some ''ghost@x.com'' \<and>
      ''ghost@x.com'' \<notin> set (map user_email (users users_db))"
    by (simp add: demo_decode_def users_db_def empty_db_def alice_def bob_def)
  from d1 C5_unauthenticated_indistinguishable [of demo_decode "''not a token''" JWTError users_db]
  have a: "get_current_user demo_decode users_db ''not a token'' = Inl credentials_exception"
    by blast
  from d2 C5_unauthenticated_indistinguishable [of demo_decode "''token-nosub''" _ users_db Map.empty]
  have b: "get_current_user demo_decode users_db ''token-nosub'' = Inl credentials_exception"
    by blast
  from d3 C5_unauthenticated_indistinguishable
    [of demo_decode "''token-ghost''" _ users_db "[''sub'' \<mapsto> ''ghost@x.com'']" "''ghost@x.com''"]
  have c: "get_current_user demo_decode users_db ''token-ghost'' = Inl credentials_exception"
    by blast
  have d: "get_current_user demo_decode users_db ''token-a'' = Inr alice"
    by (simp add: get_current_user_def demo_decode_def users_db_def empty_db_def first_def
        alice_def bob_def)
  from a b c d show ?thesis by simp
qed

text \<open>
  C6. A signup whose email is the email of an existing user row fails with
  \<open>HTTPException 400 "Email already registered"\<close> and leaves the store as it was. A
  signup with an unused email succeeds: the users table grows by exactly one row, at
  its end, with the payload's email, the hash of the payload's password and an id that
  no other row has, and the response carries that id and email.
\<close>

theorem C6_signup_email_taken_or_created:
  "(uc_email user \<in> set (map user_email (users db)) \<longrightarrow>
      signup get_password_hash user db =
        (Inl (HTTPException 400 ''Email already registered'' []), db)) \<and>
   (uc_email user \<notin> set (map user_email (users db)) \<longrightarrow>
      signup get_password_hash user db =
        (Inr \<lparr>uo_id = next_user_id (users db), uo_email = uc_email user\<rparr>,
         db\<lparr>users := users db @
               [\<lparr>user_id = next_user_id (users db), user_email = uc_email user,
                 user_hashed_password = get_password_hash (uc_password user)\<rparr>]\<rparr>) \<and>
      next_user_id (users db) \<notin> set (map user_id (users db)))"
proof (intro conjI impI)
  assume "uc_email user \<in> set (map user_email (users db))"
  then have "\<exists>x \<in> set (users db). user_email x = uc_email user" by auto
  then obtain y where "first (filter (\<lambda>u. user_email u = uc_email user) (users db)) = Some y"
    using first_filter_Some_iff [of "\<lambda>u. user_email u = uc_email user" "users db"] by blast
  then show "signup get_password_hash user db =
        (Inl (HTTPException 400 ''Email already registered'' []), db)"
    by (simp add: signup_def)
next
  assume fresh: "uc_email user \<notin> set (map user_email (users db))"
  then have none: "first (filter (\<lambda>u. user_email u = uc_email user) (users db)) = None"
    by (force simp: first_filter_None_iff)
  show "signup get_password_hash user db =
        (Inr \<lparr>uo_id = next_user_id (users db), uo_email = uc_email user\<rparr>,
         db\<lparr>users := users db @
               [\<lparr>user_id = next_user_id (users db), user_email = uc_email user,
                 user_hashed_password = get_password_hash (uc_password user)\<rparr>]\<rparr>)"
    using fresh none next_user_id_fresh [of "users db"]
    by (simp add: signup_def insert_user_def insert_row_def Let_def)
next
  assume "uc_email user \<notin> set (map user_email (users db))"
  show "next_user_id (users db) \<notin> set (map user_id (users db))"
    by (rule next_user_id_fresh)
qed

text \<open>
  C6 at concrete payloads: alice's email is taken; carol's is not and she becomes
  user 3.
\<close>

theorem C6_signup_email_taken_or_created_witness:
  "signup demo_hash signup_alice users_db =
     (Inl (HTTPException 400 ''Email already registered'' []), users_db) \<and>
   signup demo_hash signup_carol users_db =
     (Inr \<lparr>uo_id = 3, uo_email = ''c@x.com''\<rparr>,
      users_db\<lparr>users := [alice, bob,
        \<lparr>user_id = 3, user_email = ''c@x.com'', user_hashed_password = ''hash:pw789''\<rparr>]\<rparr>)"
proof -
  have taken: "uc_email signup_alice \<in> set (map user_email (users users_db))"
    by (simp add: signup_alice_def users_db_def empty_db_def alice_def bob_def)
  have unused: "uc_email signup_carol \<notin> set (map user_email (users users_db))"
    by (simp add: signup_carol_def users_db_def empty_db_def alice_def bob_def)
  have n: "next_user_id [alice, bob] = 3"
    by (simp add: next_user_id_def alice_def bob_def)
  from taken C6_signup_email_taken_or_created [of signup_alice users_db demo_hash]
  have a: "signup demo_hash signup_alice users_db =
     (Inl (HTTPException 400 ''Email already registered'' []), users_db)" by blast
  from unused C6_signup_email_taken_or_created [of signup_carol users_db demo_hash]
  have "signup demo_hash signup_carol users_db =
        (Inr \<lparr>uo_id = next_user_id (users users_db), uo_email = uc_email signup_carol\<rparr>,
         users_db\<lparr>users := users users_db @
               [\<lparr>user_id = next_user_id (users users_db), user_email = uc_email signup_carol,
                 user_hashed_password = demo_hash (uc_password signup_carol)\<rparr>]\<rparr>)" by blast
  then have c: "signup demo_hash signup_carol users_db =
     (Inr \<lparr>uo_id = 3, uo_email = ''c@x.com''\<rparr>,
      users_db\<lparr>users := [alice, bob,
        \<lparr>user_id = 3, user_email = ''c@x.com'', user_hashed_password = ''hash:pw789''\<rparr>]\<rparr>)"
    by (simp add: n signup_carol_def demo_hash_def users_db_def empty_db_def)
  from a c show ?thesis by simp
qed

section \<open>Claims about goals\<close>

text \<open>
  C1 (the code at the input where it breaks the claim). Starting from two signed-up
  users, bob creates the goal \<open>g1\<close> and alice posts the subject \<open>s1\<close> with
  \<open>goalId = "g1"\<close>; the subject's row is alice's. Bob then deletes his goal \<open>g1\<close>: the
  request succeeds and alice's subject is gone with it, because the bulk delete of
  \<open>delete_goal\<close> filters the subjects by \<open>goal_id\<close> only, not by owner.
\<close>

theorem C1_delete_goal_removes_foreign_subject:
  "subjects shared_goal_db = [subject_data subject_s1 alice] \<and>
   subject_owner_id (subject_data subject_s1 alice) = user_id alice \<and>
   user_id alice \<noteq> user_id bob \<and>
   read_goals bob shared_goal_db = [\<lparr>goal_id = ''g1'', goal_title = ''Finals'',
       goal_type = ''EXAM'', goal_details = Kept JNull, goal_owner_id = user_id bob\<rparr>] \<and>
   delete_goal ''g1'' bob shared_goal_db = (Inr ''Goal deleted'', users_db) \<and>
   subjects users_db = []"
  by (simp add: shared_goal_db_eq bobs_goal_db_eq delete_goal_def delete_row_def first_def
      read_goals_def subject_data_def subject_s1_def alice_def bob_def users_db_def empty_db_def)



text \<open>
  A remark on the bulk delete. On a store that does hold a chapter of the subject
  (\<open>alice_db\<close>; the handlers cannot produce it, the row has to come from elsewhere),
  \<open>delete_goal\<close> removes the goal and the subject and leaves the chapter, where
  \<open>delete_subject\<close> removes it: the bulk \<open>Query.delete()\<close> runs no relationship cascade.
\<close>

lemma delete_goal_bulk_delete_runs_no_cascade:
  "subjects alice_db = [subject_data subject_s1 alice] \<and>
   chapters alice_db = [chapter_c1] \<and>
   chapter_subject_id chapter_c1 = subject_id (subject_data subject_s1 alice) \<and>
   delete_goal ''g1'' alice alice_db =
     (Inr ''Goal deleted'', alice_db\<lparr>goals := [], subjects := []\<rparr>) \<and>
   chapters (snd (delete_goal ''g1'' alice alice_db)) = [chapter_c1] \<and>
   chapters (snd (delete_subject ''s1'' alice alice_db)) = []"
  by (simp add: alice_db_def delete_goal_def delete_subject_def delete_row_def first_def
      subject_data_def subject_s1_def chapter_c1_def alice_def)

text \<open>
  C4 (counterexample). Bob owns the goal \<open>g1\<close> titled Finals. His \<open>POST /goals\<close> with
  the id \<open>g1\<close> and the title Finals 2 does not overwrite the row and returns no row:
  the request ends with the store's integrity error and the store is as before.
\<close>

theorem C4_create_goal_existing_id_counterexample:
  "goals bobs_goal_db = [\<lparr>goal_id = ''g1'', goal_title = ''Finals'', goal_type = ''EXAM'',
       goal_details = Kept JNull, goal_owner_id = user_id bob\<rparr>] \<and>
   gc_id goal_g1_retitled = ''g1'' \<and> gc_title goal_g1_retitled = ''Finals 2'' \<and>
   create_goal goal_g1_retitled bob bobs_goal_db = (Inl IntegrityError, bobs_goal_db)"
  by (simp add: bobs_goal_db_eq create_goal_def insert_row_def Let_def goal_g1_retitled_def
      bob_def users_db_def empty_db_def)

text \<open>
  C4 (amended). \<open>POST /goals\<close> is an insert, not an upsert. When some goal row, of
  any owner, bears the supplied id, the request ends with the store's integrity error
  and the store is unchanged (so there is one row with that id, never two, and it is
  not overwritten). When no goal row bears the id, exactly one row with the payload's
  fields and the caller as owner is added at the end of the table, and it is the
  response. The fields are the payload's id, title and type as sent, and its details
  as the JSON column gives them back (\<open>store_json\<close>: as sent, unless they are a bare
  number).
\<close>

theorem C4_create_goal_insert_only:
  "(gc_id goal \<in> set (map goal_id (goals db)) \<longrightarrow>
      create_goal goal current_user db = (Inl IntegrityError, db)) \<and>
   (gc_id goal \<notin> set (map goal_id (goals db)) \<longrightarrow>
      create_goal goal current_user db =
        (Inr \<lparr>goal_id = gc_id goal, goal_title = gc_title goal, goal_type = gc_type goal,
              goal_details = store_json (gc_details goal), goal_owner_id = user_id current_user\<rparr>,
         db\<lparr>goals := goals db @
               [\<lparr>goal_id = gc_id goal, goal_title = gc_title goal, goal_type = gc_type goal,
                 goal_details = store_json (gc_details goal), goal_owner_id = user_id current_user\<rparr>]\<rparr>))"
  by (simp add: create_goal_def insert_row_def Let_def)

text \<open>
  C4 (amended) at concrete payloads: alice posting the id of bob's goal is rejected,
  and bob posting a new id adds the row after his first goal.
\<close>

theorem C4_create_goal_insert_only_witness:
  "create_goal goal_g1 alice bobs_goal_db = (Inl IntegrityError, bobs_goal_db) \<and>
   goals (snd (create_goal goal_g2 bob bobs_goal_db)) =
     [\<lparr>goal_id = ''g1'', goal_title = ''Finals'', goal_type = ''EXAM'',
       goal_details = Kept JNull, goal_owner_id = 2\<rparr>,
      \<lparr>goal_id = ''g2'', goal_title = ''June'', goal_type = ''MONTHLY'',
       goal_details = Kept JNull, goal_owner_id = 2\<rparr>]"
proof -
  have t: "gc_id goal_g1 \<in> set (map goal_id (goals bobs_goal_db))"
    by (simp add: bobs_goal_db_eq goal_g1_def)
  have f: "gc_id goal_g2 \<notin> set (map goal_id (goals bobs_goal_db))"
    by (simp add: bobs_goal_db_eq goal_g2_def)
  from t C4_create_goal_insert_only [of goal_g1 bobs_goal_db alice]
  have a: "create_goal goal_g1 alice bobs_goal_db = (Inl IntegrityError, bobs_goal_db)"
    by blast
  from f C4_create_goal_insert_only [of goal_g2 bobs_goal_db bob]
  have "create_goal goal_g2 bob bobs_goal_db =
        (Inr \<lparr>goal_id = gc_id goal_g2, goal_title = gc_title goal_g2, goal_type = gc_type goal_g2,
              goal_details = store_json (gc_details goal_g2), goal_owner_id = user_id bob\<rparr>,
         bobs_goal_db\<lparr>goals := goals bobs_goal_db @
               [\<lparr>goal_id = gc_id goal_g2, goal_title = gc_title goal_g2, goal_type = gc_type goal_g2,
                 goal_details = store_json (gc_details goal_g2), goal_owner_id = user_id bob\<rparr>]\<rparr>)"
    by blast
  then have b: "goals (snd (create_goal goal_g2 bob bobs_goal_db)) =
     [\<lparr>goal_id = ''g1'', goal_title = ''Finals'', goal_type = ''EXAM'',
       goal_details = Kept JNull, goal_owner_id = 2\<rparr>,
      \<lparr>goal_id = ''g2'', goal_title = ''June'', goal_type = ''MONTHLY'',
       goal_details = Kept JNull, goal_owner_id = 2\<rparr>]"
    by (simp add: bobs_goal_db_eq goal_g2_def bob_def)
  from a b show ?thesis by simp
qed

section \<open>Claims about subjects\<close>

text \<open>
  C9. \<open>DELETE /subjects/{id}\<close> fails with \<open>HTTPException 404 "Subject not found"\<close>
  exactly when no subject row has that id and the caller as owner, and then the store
  is unchanged. Otherwise it succeeds and the store it leaves is the old one without
  the subject rows of that id and without the chapter rows whose \<open>subject_id\<close> is that
  id; nothing else is removed.
\<close>

theorem C9_delete_subject_not_found_or_cascade:
  "(fst (delete_subject sid current_user db) = Inl (HTTPException 404 ''Subject not found'' []) \<longleftrightarrow>
      \<not> (\<exists>s \<in> set (subjects db). subject_id s = sid \<and> subject_owner_id s = user_id current_user)) \<and>
   (\<not> (\<exists>s \<in> set (subjects db). subject_id s = sid \<and> subject_owner_id s = user_id current_user) \<longrightarrow>
      snd (delete_subject sid current_user db) = db) \<and>
   ((\<exists>s \<in> set (subjects db). subject_id s = sid \<and> subject_owner_id s = user_id current_user) \<longrightarrow>
      delete_subject sid current_user db =
        (Inr ''Subject deleted'',
         db\<lparr>chapters := filter (\<lambda>c. chapter_subject_id c \<noteq> sid) (chapters db),
            subjects := filter (\<lambda>s. subject_id s \<noteq> sid) (subjects db)\<rparr>))"
proof -
  let ?P = "\<lambda>s. subject_id s = sid \<and> subject_owner_id s = user_id current_user"
  show ?thesis
  proof (cases "first (filter ?P (subjects db))")
    case None
    then have no: "\<not> (\<exists>s \<in> set (subjects db). ?P s)"
      by (simp add: first_filter_None_iff)
    from None have "delete_subject sid current_user db =
        (Inl (HTTPException 404 ''Subject not found'' []), db)"
      by (simp add: delete_subject_def)
    with no show ?thesis by simp
  next
    case (Some found)
    then have f: "found \<in> set (subjects db) \<and> ?P found"
      by (rule first_filter_Some)
    then have yes: "\<exists>s \<in> set (subjects db). ?P s" by blast
    from Some f have "delete_subject sid current_user db =
        (Inr ''Subject deleted'',
         db\<lparr>chapters := filter (\<lambda>c. chapter_subject_id c \<noteq> sid) (chapters db),
            subjects := filter (\<lambda>s. subject_id s \<noteq> sid) (subjects db)\<rparr>)"
      by (simp add: delete_subject_def delete_row_def)
    with yes show ?thesis by simp
  qed
qed

text \<open>
  C9 at concrete requests: bob cannot delete alice's subject \<open>s1\<close>; alice can, and the
  chapter of \<open>s1\<close> goes with it.
\<close>

theorem C9_delete_subject_not_found_or_cascade_witness:
  "delete_subject ''s1'' bob alice_db = (Inl (HTTPException 404 ''Subject not found'' []), alice_db) \<and>
   delete_subject ''s1'' alice alice_db =
     (Inr ''Subject deleted'', alice_db\<lparr>chapters := [], subjects := []\<rparr>)"
proof -
  have nb: "\<not> (\<exists>s \<in> set (subjects alice_db). subject_id s = ''s1'' \<and> subject_owner_id s = user_id bob)"
    by (simp add: alice_db_def subject_data_def alice_def bob_def)
  have ya: "\<exists>s \<in> set (subjects alice_db). subject_id s = ''s1'' \<and> subject_owner_id s = user_id alice"
    by (simp add: alice_db_def subject_data_def subject_s1_def)
  from nb C9_delete_subject_not_found_or_cascade [of "''s1''" bob alice_db]
  have "fst (delete_subject ''s1'' bob alice_db) = Inl (HTTPException 404 ''Subject not found'' [])"
    and "snd (delete_subject ''s1'' bob alice_db) = alice_db"
    by blast+
  then have b: "delete_subject ''s1'' bob alice_db =
      (Inl (HTTPException 404 ''Subject not found'' []), alice_db)"
    by (simp add: prod_eq_iff)
  from ya C9_delete_subject_not_found_or_cascade [of "''s1''" alice alice_db]
  have "delete_subject ''s1'' alice alice_db =
        (Inr ''Subject deleted'',
         alice_db\<lparr>chapters := filter (\<lambda>c. chapter_subject_id c \<noteq> ''s1'') (chapters alice_db),
            subjects := filter (\<lambda>s. subject_id s \<noteq> ''s1'') (subjects alice_db)\<rparr>)"
    by blast
  then have a: "delete_subject ''s1'' alice alice_db =
     (Inr ''Subject deleted'', alice_db\<lparr>chapters := [], subjects := []\<rparr>)"
    by (simp add: alice_db_def subject_data_def subject_s1_def chapter_c1_def)
  from a b show ?thesis by simp
qed

text \<open>
  C2. In a store whose primary keys are unique, an upsert with an id that a row of a
  different owner holds finds no row for the caller (the lookup filters by id and
  owner), and the new row it then adds is rejected by the primary key: the request
  ends with the store's integrity error and the store is unchanged, so no fresh row
  with that id is created. This holds for \<open>POST /subjects\<close> and, when any element of
  the input collides, for the whole \<open>POST /notifications/sync\<close>. Whatever the
  payload, each row that was in the table keeps its place, its id and its owner.
\<close>

theorem C2_upsert_rejects_id_of_other_owner:
  assumes "keys_unique db"
  shows "((\<exists>s \<in> set (subjects db). subject_id s = sc_id subject \<and>
             subject_owner_id s \<noteq> user_id current_user) \<longrightarrow>
            create_or_update_subject subject current_user db = (Inl IntegrityError, db)) \<and>
         ((\<exists>r \<in> set (notifications db). \<exists>n \<in> set ns. notification_id r = nc_id n \<and>
             notification_owner_id r \<noteq> user_id current_user) \<longrightarrow>
            sync_notifications ns current_user db = (Inl IntegrityError, db)) \<and>
         map (\<lambda>s. (subject_id s, subject_owner_id s))
           (take (length (subjects db))
              (subjects (snd (create_or_update_subject subject current_user db)))) =
         map (\<lambda>s. (subject_id s, subject_owner_id s)) (subjects db) \<and>
         map (\<lambda>n. (notification_id n, notification_owner_id n))
           (take (length (notifications db))
              (notifications (snd (sync_notifications ns current_user db)))) =
         map (\<lambda>n. (notification_id n, notification_owner_id n)) (notifications db)"
proof -
  from assms have ds: "distinct (map subject_id (subjects db))"
    and dn: "distinct (map notification_id (notifications db))"
    by (simp_all add: keys_unique_def)
  show ?thesis
  proof (intro conjI impI)
    assume "\<exists>s \<in> set (subjects db). subject_id s = sc_id subject \<and>
             subject_owner_id s \<noteq> user_id current_user"
    with ds show "create_or_update_subject subject current_user db = (Inl IntegrityError, db)"
      by (rule upsert_other_owner)
  next
    assume "\<exists>r \<in> set (notifications db). \<exists>n \<in> set ns. notification_id r = nc_id n \<and>
             notification_owner_id r \<noteq> user_id current_user"
    with dn show "sync_notifications ns current_user db = (Inl IntegrityError, db)"
      by (rule sync_other_owner)
  next
    from ds show "map (\<lambda>s. (subject_id s, subject_owner_id s))
           (take (length (subjects db))
              (subjects (snd (create_or_update_subject subject current_user db)))) =
         map (\<lambda>s. (subject_id s, subject_owner_id s)) (subjects db)"
      by (rule upsert_key_owner)
  next
    from dn show "map (\<lambda>n. (notification_id n, notification_owner_id n))
           (take (length (notifications db))
              (notifications (snd (sync_notifications ns current_user db)))) =
         map (\<lambda>n. (notification_id n, notification_owner_id n)) (notifications db)"
      by (rule sync_key_owner)
  qed
qed

text \<open>
  C2 at concrete requests: bob posts the subject id and syncs the notification id that
  alice's rows hold.
\<close>

theorem C2_upsert_rejects_id_of_other_owner_witness:
  "keys_unique alice_db \<and>
   subjects alice_db = [subject_data subject_s1 alice] \<and>
   notifications alice_db = [notification_data notif_n1 alice] \<and>
   create_or_update_subject subject_s1 bob alice_db = (Inl IntegrityError, alice_db) \<and>
   sync_notifications [notif_n2, notif_n1_completed] bob alice_db = (Inl IntegrityError, alice_db)"
proof -
  have k: "keys_unique alice_db" by (rule alice_db_keys_unique)
  have s: "\<exists>s \<in> set (subjects alice_db). subject_id s = sc_id subject_s1 \<and>
             subject_owner_id s \<noteq> user_id bob"
    by (simp add: alice_db_def subject_data_def alice_def bob_def)
  have n: "\<exists>r \<in> set (notifications alice_db). \<exists>n \<in> set [notif_n2, notif_n1_completed].
             notification_id r = nc_id n \<and> notification_owner_id r \<noteq> user_id bob"
    by (simp add: alice_db_def notification_data_def notif_n1_completed_def notif_n1_def
        alice_def bob_def)
  note inst = C2_upsert_rejects_id_of_other_owner [OF k, of subject_s1 bob "[notif_n2, notif_n1_completed]"]
  from inst s have a: "create_or_update_subject subject_s1 bob alice_db = (Inl IntegrityError, alice_db)"
    by blast
  from inst n have b: "sync_notifications [notif_n2, notif_n1_completed] bob alice_db =
      (Inl IntegrityError, alice_db)"
    by blast
  from k a b show ?thesis by (simp add: alice_db_def)
qed

text \<open>
  C8 (counterexample). Alice owns the subject \<open>s1\<close>. Bob posts a subject with the id
  \<open>s1\<close> twice: afterwards there is no row with that id and bob as owner, not one.
\<close>

theorem C8_post_subject_twice_other_owner_counterexample:
  "subjects alice_db = [subject_data subject_s1 alice] \<and>
   subject_owner_id (subject_data subject_s1 alice) \<noteq> user_id bob \<and>
   filter (\<lambda>s. subject_id s = sc_id subject_s1 \<and> subject_owner_id s = user_id bob)
     (subjects (post_subject_twice subject_s1 bob alice_db)) = []"
  by (simp add: post_subject_twice_def create_or_update_subject_def insert_row_def first_def
      Let_def alice_db_def subject_data_def subject_s1_def alice_def bob_def)

text \<open>
  C8 (amended). In a store whose primary keys are unique, when no subject row of
  another owner bears the payload's id, the same \<open>POST /subjects\<close> made twice by the
  same caller leaves exactly one row with that id and that owner. The row is
  \<open>subject_data\<close> of the payload and the caller: the payload's fields as the store keeps
  them (the strings as sent, a NaN in the hours as NULL and any other float as sent,
  the schedule as the JSON column gives it back) with the caller as owner. It is the
  only row with that id, and the second request leaves the store exactly as the first
  one left it.
\<close>

theorem C8_post_subject_twice_one_row:
  assumes k: "keys_unique db"
    and o: "\<forall>s \<in> set (subjects db).
              subject_id s = sc_id subject \<longrightarrow> subject_owner_id s = user_id current_user"
  shows "filter (\<lambda>s. subject_id s = sc_id subject \<and> subject_owner_id s = user_id current_user)
           (subjects (post_subject_twice subject current_user db)) =
           [subject_data subject current_user] \<and>
         filter (\<lambda>s. subject_id s = sc_id subject)
           (subjects (post_subject_twice subject current_user db)) =
           [subject_data subject current_user] \<and>
         post_subject_twice subject current_user db =
           snd (create_or_update_subject subject current_user db)"
proof -
  let ?data = "subject_data subject current_user"
  let ?db1 = "snd (create_or_update_subject subject current_user db)"
  from k have d: "distinct (map subject_id (subjects db))" by (simp add: keys_unique_def)
  have kd: "subject_id ?data = sc_id subject" and od: "subject_owner_id ?data = user_id current_user"
    by (simp_all add: subject_data_def)
  have db1: "?db1 = db\<lparr>subjects := subjects ?db1\<rparr> \<and> ?data \<in> set (subjects ?db1) \<and>
      filter (\<lambda>s. subject_id s = sc_id subject) (subjects ?db1) = [?data] \<and>
      update_row subject_id ?data (subjects ?db1) = subjects ?db1"
  proof (cases "sc_id subject \<in> set (map subject_id (subjects db))")
    case True
    then obtain r0 where r0: "r0 \<in> set (subjects db)" "subject_id r0 = sc_id subject" by auto
    with o have "subject_owner_id r0 = user_id current_user" by blast
    with r0 have "\<exists>s \<in> set (subjects db). subject_id s = sc_id subject \<and>
        subject_owner_id s = user_id current_user" by blast
    then have e: "?db1 = db\<lparr>subjects := update_row subject_id ?data (subjects db)\<rparr>"
      by (rule upsert_found)
    from r0 kd have f: "filter (\<lambda>x. subject_id x = subject_id ?data)
        (update_row subject_id ?data (subjects db)) = [?data]"
      by (intro filter_key_update_row [OF d r0(1)]) simp
    then have "?data \<in> set (filter (\<lambda>x. subject_id x = subject_id ?data)
        (update_row subject_id ?data (subjects db)))" by simp
    then have "?data \<in> set (update_row subject_id ?data (subjects db))" by simp
    with e f kd show ?thesis by (simp add: update_row_idem)
  next
    case False
    then have e: "?db1 = db\<lparr>subjects := subjects db @ [?data]\<rparr>"
      by (rule upsert_fresh)
    from False have "\<forall>x \<in> set (subjects db). subject_id x \<noteq> sc_id subject" by force
    then have "filter (\<lambda>s. subject_id s = sc_id subject) (subjects db) = []"
      by (simp add: filter_empty_conv)
    moreover from False kd have "update_row subject_id ?data (subjects db) = subjects db"
      by (intro update_row_absent) simp
    then have "update_row subject_id ?data (subjects db @ [?data]) = subjects db @ [?data]"
      by (simp add: update_row_def)
    ultimately show ?thesis using e kd by simp
  qed
  then have "\<exists>s \<in> set (subjects ?db1). subject_id s = sc_id subject \<and>
      subject_owner_id s = user_id current_user"
    using kd od by blast
  then have "snd (create_or_update_subject subject current_user ?db1) =
      ?db1\<lparr>subjects := update_row subject_id ?data (subjects ?db1)\<rparr>"
    by (rule upsert_found)
  with db1 have same: "post_subject_twice subject current_user db = ?db1"
    by (simp add: post_subject_twice_def)
  from db1 have one: "filter (\<lambda>s. subject_id s = sc_id subject) (subjects ?db1) = [?data]"
    by simp
  have "filter (\<lambda>s. subject_id s = sc_id subject \<and> subject_owner_id s = user_id current_user)
      (subjects ?db1) =
      filter (\<lambda>s. subject_owner_id s = user_id current_user)
        (filter (\<lambda>s. subject_id s = sc_id subject) (subjects ?db1))"
    by (simp add: conj_commute)
  with one od have "filter (\<lambda>s. subject_id s = sc_id subject \<and>
      subject_owner_id s = user_id current_user) (subjects ?db1) = [?data]"
    by simp
  with one same show ?thesis by simp
qed

text \<open>
  C8 (amended) at concrete requests: bob posts the new subject \<open>s2\<close> twice, and alice
  posts her subject \<open>s1\<close> under a new name twice.
\<close>

theorem C8_post_subject_twice_one_row_witness:
  "subjects (post_subject_twice subject_s2 bob alice_db) =
     [subject_data subject_s1 alice, subject_data subject_s2 bob] \<and>
   subjects (post_subject_twice (subject_s1\<lparr>sc_name := ''Maths''\<rparr>) alice alice_db) =
     [subject_data (subject_s1\<lparr>sc_name := ''Maths''\<rparr>) alice]"
proof -
  have k: "keys_unique alice_db" by (rule alice_db_keys_unique)
  have o2: "\<forall>s \<in> set (subjects alice_db).
              subject_id s = sc_id subject_s2 \<longrightarrow> subject_owner_id s = user_id bob"
    by (simp add: alice_db_def subject_data_def subject_s1_def subject_s2_def)
  have o1: "\<forall>s \<in> set (subjects alice_db).
              subject_id s = sc_id (subject_s1\<lparr>sc_name := ''Maths''\<rparr>) \<longrightarrow>
              subject_owner_id s = user_id alice"
    by (simp add: alice_db_def subject_data_def subject_s1_def)
  from C8_post_subject_twice_one_row [OF k o2]
  have "post_subject_twice subject_s2 bob alice_db =
      snd (create_or_update_subject subject_s2 bob alice_db)" by blast
  then have a: "subjects (post_subject_twice subject_s2 bob alice_db) =
     [subject_data subject_s1 alice, subject_data subject_s2 bob]"
    by (simp add: create_or_update_subject_def insert_row_def first_def Let_def alice_db_def
        subject_data_def subject_s1_def subject_s2_def alice_def bob_def)
  from C8_post_subject_twice_one_row [OF k o1]
  have "post_subject_twice (subject_s1\<lparr>sc_name := ''Maths''\<rparr>) alice alice_db =
      snd (create_or_update_subject (subject_s1\<lparr>sc_name := ''Maths''\<rparr>) alice alice_db)" by blast
  then have b: "subjects (post_subject_twice (subject_s1\<lparr>sc_name := ''Maths''\<rparr>) alice alice_db) =
     [subject_data (subject_s1\<lparr>sc_name := ''Maths''\<rparr>) alice]"
    by (simp add: create_or_update_subject_def update_row_def first_def Let_def alice_db_def
        subject_data_def subject_s1_def alice_def)
  from a b show ?thesis by simp
qed

text \<open>
  The same at hours that are NaN: alice posts such a subject twice, and her one row
  holds NULL in both hours columns.
\<close>

lemma post_subject_nan_hours_kept_as_null:
  "sc_totalStudyHours subject_nan = NaN \<and>
   subjects (post_subject_twice subject_nan alice users_db) = [subject_data subject_nan alice] \<and>
   subject_total_study_hours (subject_data subject_nan alice) = None \<and>
   subject_total_target_hours (subject_data subject_nan alice) = None"
  by (simp add: post_subject_twice_def create_or_update_subject_def insert_row_def update_row_def
      first_def Let_def subject_data_def subject_nan_def subject_s1_def users_db_def empty_db_def
      alice_def)

text \<open>
  C10. After \<open>POST /goals\<close>, \<open>POST /subjects\<close> or \<open>POST /notifications/sync\<close>, for
  every payload, every row of the endpoint's table is either a row that was there
  before the request, unchanged, or a row whose owner is the caller: no row that the
  request creates or overwrites gets any other owner. The payload types have no owner
  field, and the request changes no other table.
\<close>

theorem C10_written_rows_owned_by_caller:
  "(\<forall>g \<in> set (goals (snd (create_goal goal current_user db))).
      g \<in> set (goals db) \<or> goal_owner_id g = user_id current_user) \<and>
   (\<forall>s \<in> set (subjects (snd (create_or_update_subject subject current_user db))).
      s \<in> set (subjects db) \<or> subject_owner_id s = user_id current_user) \<and>
   (\<forall>n \<in> set (notifications (snd (sync_notifications ns current_user db))).
      n \<in> set (notifications db) \<or> notification_owner_id n = user_id current_user) \<and>
   snd (create_goal goal current_user db) =
     db\<lparr>goals := goals (snd (create_goal goal current_user db))\<rparr> \<and>
   snd (create_or_update_subject subject current_user db) =
     db\<lparr>subjects := subjects (snd (create_or_update_subject subject current_user db))\<rparr> \<and>
   snd (sync_notifications ns current_user db) =
     db\<lparr>notifications := notifications (snd (sync_notifications ns current_user db))\<rparr>"
proof (intro conjI ballI)
  fix g
  assume "g \<in> set (goals (snd (create_goal goal current_user db)))"
  then show "g \<in> set (goals db) \<or> goal_owner_id g = user_id current_user"
    by (auto simp: create_goal_def insert_row_def Let_def split: if_splits)
next
  fix s
  assume "s \<in> set (subjects (snd (create_or_update_subject subject current_user db)))"
  then show "s \<in> set (subjects db) \<or> subject_owner_id s = user_id current_user"
    by (auto simp: create_or_update_subject_def insert_row_def Let_def subject_data_def
        split: if_splits option.splits dest!: update_row_set)
next
  fix n
  let ?loop = "sync_loop current_user db ns (notifications db, [])"
  assume a: "n \<in> set (notifications (snd (sync_notifications ns current_user db)))"
  from sync_notifications_table [of ns current_user db]
  show "n \<in> set (notifications db) \<or> notification_owner_id n = user_id current_user"
  proof
    assume "notifications (snd (sync_notifications ns current_user db)) = notifications db"
    with a show ?thesis by simp
  next
    assume "notifications (snd (sync_notifications ns current_user db)) = fst ?loop @ snd ?loop"
    with a have "n \<in> set (fst ?loop) \<or> n \<in> set (snd ?loop)" by simp
    then show ?thesis
    proof
      assume "n \<in> set (fst ?loop)"
      then show ?thesis by (rule sync_loop_rows_mem)
    next
      assume "n \<in> set (snd ?loop)"
      then have "n \<in> set [] \<or> notification_owner_id n = user_id current_user"
        by (rule sync_loop_new_mem)
      then show ?thesis by simp
    qed
  qed
next
  show "snd (create_goal goal current_user db) =
     db\<lparr>goals := goals (snd (create_goal goal current_user db))\<rparr>"
    by (simp add: create_goal_def insert_row_def Let_def)
next
  show "snd (create_or_update_subject subject current_user db) =
     db\<lparr>subjects := subjects (snd (create_or_update_subject subject current_user db))\<rparr>"
    by (simp add: create_or_update_subject_def insert_row_def Let_def split: option.splits)
next
  show "snd (sync_notifications ns current_user db) =
     db\<lparr>notifications := notifications (snd (sync_notifications ns current_user db))\<rparr>"
    by (rule sync_notifications_frame)
qed

text \<open>
  C10 at concrete requests: the row each endpoint adds is the last of its table, is
  not a row that was there before, and is owned by the caller.
\<close>

theorem C10_written_rows_owned_by_caller_witness:
  "goal_owner_id (last (goals (snd (create_goal goal_g2 alice bobs_goal_db)))) = user_id alice \<and>
   subject_owner_id (last (subjects (snd (create_or_update_subject subject_s2 bob alice_db)))) =
     user_id bob \<and>
   notification_owner_id (last (notifications (snd (sync_notifications [notif_n2] bob alice_db)))) =
     user_id bob"
proof -
  let ?g = "last (goals (snd (create_goal goal_g2 alice bobs_goal_db)))"
  let ?s = "last (subjects (snd (create_or_update_subject subject_s2 bob alice_db)))"
  let ?n = "last (notifications (snd (sync_notifications [notif_n2] bob alice_db)))"
  note inst_g = C10_written_rows_owned_by_caller [where goal = goal_g2 and current_user = alice and db = bobs_goal_db]
  note inst_s = C10_written_rows_owned_by_caller [where subject = subject_s2 and current_user = bob and db = alice_db]
  note inst_n = C10_written_rows_owned_by_caller [where ns = "[notif_n2]" and current_user = bob and db = alice_db]
  have g: "?g \<in> set (goals (snd (create_goal goal_g2 alice bobs_goal_db))) \<and>
      ?g \<notin> set (goals bobs_goal_db)"
    by (simp add: create_goal_def insert_row_def Let_def bobs_goal_db_eq goal_g2_def alice_def)
  have s: "?s \<in> set (subjects (snd (create_or_update_subject subject_s2 bob alice_db))) \<and>
      ?s \<notin> set (subjects alice_db)"
    by (simp add: create_or_update_subject_def insert_row_def first_def Let_def alice_db_def
        subject_data_def subject_s1_def subject_s2_def alice_def bob_def)
  have n: "?n \<in> set (notifications (snd (sync_notifications [notif_n2] bob alice_db))) \<and>
      ?n \<notin> set (notifications alice_db)"
    by (simp add: sync_notifications_def insert_row_def first_def Let_def alice_db_def
        notification_data_def notif_n1_def notif_n2_def alice_def bob_def)
  from inst_g g have a: "goal_owner_id ?g = user_id alice" by blast
  from inst_s s have b: "subject_owner_id ?s = user_id bob" by blast
  from inst_n n have c: "notification_owner_id ?n = user_id bob" by blast
  from a b c show ?thesis by simp
qed

section \<open>Claims about notifications\<close>

text \<open>
  C7 (the code at the input where it breaks the claim). Alice has no notifications and
  syncs \<open>n1\<close> and \<open>n2\<close>. Both rows are committed with her as owner, and then the
  response is not her notification list: building it raises \<open>ValidationError\<close>,
  because \<open>read_notifications\<close> constructs \<open>schemas.Notification\<close> without the
  required \<open>owner_id\<close>. Syncing \<open>n1\<close> again as completed overwrites her row \<open>n1\<close> in
  place and leaves \<open>n2\<close>, and again the response is the error, not the two rows.
\<close>

theorem C7_sync_raises_after_commit:
  "notifications users_db = [] \<and>
   sync_notifications [notif_n1, notif_n2] alice users_db =
     (Inl ValidationError,
      users_db\<lparr>notifications :=
        [notification_data notif_n1 alice, notification_data notif_n2 alice]\<rparr>) \<and>
   sync_notifications [notif_n1_completed] alice
       (users_db\<lparr>notifications :=
          [notification_data notif_n1 alice, notification_data notif_n2 alice]\<rparr>) =
     (Inl ValidationError,
      users_db\<lparr>notifications :=
        [notification_data notif_n1_completed alice, notification_data notif_n2 alice]\<rparr>)"
  by (simp add: sync_notifications_def read_notifications_def notification_to_schema_def
      schemas_Notification_def insert_row_def update_row_def first_def Let_def
      notification_data_def notif_n1_completed_def notif_n1_def notif_n2_def users_db_def
      empty_db_def alice_def)

end
